theory Spec2Isabelle
  imports Main "HOL-Library.Word"
begin

unbundle bit_operations_syntax

section \<open>Go runtime conventions\<close>

text \<open>
  The six packages of the repository (pow, pos, dpos, pbft, raft, paxos) are plain Go.
  Every run-time panic the code can raise is a value of \<open>error\<close>, and a function that
  can panic returns \<open>error + 'a\<close> with \<open>Inl\<close> for the panic.
\<close>

datatype error =
    IndexOutOfRange
  | SliceBoundsOutOfRange
  | NilPointerDereference
  | NilMapAssignment
  | IntnNonPositive
  | MakesliceLenOutOfRange

text \<open>Go's \<open>int\<close> is taken as 64 bits wide; \<open>wrap64\<close> is its two's complement wrap-around.\<close>

definition wrap64 :: "int \<Rightarrow> int" where
  "wrap64 x = (x + 2 ^ 63) mod 2 ^ 64 - 2 ^ 63"

text \<open>Go's \<open>/\<close> on integers truncates towards zero.\<close>

definition quo :: "int \<Rightarrow> int \<Rightarrow> int" where
  "quo a b = sgn a * sgn b * (\<bar>a\<bar> div \<bar>b\<bar>)"

text \<open>\<open>strconv.Itoa\<close>: the decimal digits, with a minus sign for a negative number.\<close>

fun digits :: "nat \<Rightarrow> string" where
  "digits n = (if n < 10 then [''0123456789'' ! n]
               else digits (n div 10) @ [''0123456789'' ! (n mod 10)])"

declare digits.simps [simp del]

definition Itoa :: "int \<Rightarrow> string" where
  "Itoa i = (if i < 0 then CHR ''-'' # digits (nat (- i)) else digits (nat i))"

text \<open>
  \<open>Blocks[len(Blocks)-1]\<close>: the last element, or the index panic on an empty slice.
\<close>

definition lastBlock :: "'b list \<Rightarrow> error + 'b" where
  "lastBlock bs = (if bs = [] then Inl IndexOutOfRange else Inr (last bs))"

text \<open>
  \<open>rand.Intn n\<close> panics when \<open>n \<le> 0\<close> and otherwise returns some value of \<open>[0, n)\<close>.
  The random source is the argument \<open>draw\<close>; the value returned is \<open>draw mod n\<close>, so
  that every value of \<open>[0, n)\<close> is returned for some draw (for \<open>draw\<close> in \<open>[0, n)\<close> it is
  \<open>draw\<close> itself).
\<close>

definition Intn :: "int \<Rightarrow> int \<Rightarrow> error + int" where
  "Intn draw n = (if n \<le> 0 then Inl IntnNonPositive else Inr (draw mod n))"

text \<open>
  Two parameters stand for the environment throughout: \<open>h\<close> is the function from a byte
  string to the lower-case hexadecimal text of its SHA-256 digest
  (\<open>sha256.New\<close>, \<open>Write\<close>, \<open>Sum\<close>, \<open>fmt.Sprintf "%x"\<close>), and \<open>now\<close> is the text that
  \<open>time.Now().String()\<close> returns at the call. Nothing is assumed of either.
\<close>

type_synonym digest = "string \<Rightarrow> string"

section \<open>SHA-256\<close>

text \<open>
  The general results below hold for every digest function. A concrete one is needed to
  run the code on concrete inputs: \<open>sha256_hex\<close> is SHA-256 (FIPS 180-4) on a byte
  string, printed as 64 lower-case hexadecimal digits, which is what
  \<open>fmt.Sprintf("%x", hash.Sum(nil))\<close> of the Go standard library returns.
\<close>

type_synonym w32 = "32 word"

definition rotr :: "nat \<Rightarrow> w32 \<Rightarrow> w32" where
  "rotr n w = word_rotr n w"

definition Ch :: "w32 \<Rightarrow> w32 \<Rightarrow> w32 \<Rightarrow> w32" where
  "Ch x y z = (x AND y) XOR (NOT x AND z)"

definition Maj :: "w32 \<Rightarrow> w32 \<Rightarrow> w32 \<Rightarrow> w32" where
  "Maj x y z = (x AND y) XOR (x AND z) XOR (y AND z)"

definition bsig0 :: "w32 \<Rightarrow> w32" where
  "bsig0 x = rotr 2 x XOR rotr 13 x XOR rotr 22 x"

definition bsig1 :: "w32 \<Rightarrow> w32" where
  "bsig1 x = rotr 6 x XOR rotr 11 x XOR rotr 25 x"

definition ssig0 :: "w32 \<Rightarrow> w32" where
  "ssig0 x = rotr 7 x XOR rotr 18 x XOR drop_bit 3 x"

definition ssig1 :: "w32 \<Rightarrow> w32" where
  "ssig1 x = rotr 17 x XOR rotr 19 x XOR drop_bit 10 x"

text \<open>
  The constants of the standard are fractional parts of roots of primes: the round
  constants are the first 32 bits of the fractional parts of the cube roots of the first
  64 primes, the initial hash value those of the square roots of the first 8 primes.
  \<open>iroot_bits e N b r\<close> fixes the lowest \<open>b\<close> bits of the integer \<open>e\<close>-th root of \<open>N\<close>
  below the bits already in \<open>r\<close>.
\<close>

definition primes64 :: "int list" where
  "primes64 =
    [2, 3, 5, 7, 11, 13, 17, 19, 23, 29, 31, 37, 41, 43, 47, 53, 59, 61, 67, 71, 73, 79,
     83, 89, 97, 101, 103, 107, 109, 113, 127, 131, 137, 139, 149, 151, 157, 163, 167,
     173, 179, 181, 191, 193, 197, 199, 211, 223, 227, 229, 233, 239, 241, 251, 257, 263,
     269, 271, 277, 281, 283, 293, 307, 311]"

fun iroot_bits :: "nat \<Rightarrow> int \<Rightarrow> nat \<Rightarrow> int \<Rightarrow> int" where
  "iroot_bits e N 0 r = r"
| "iroot_bits e N (Suc b) r =
     (let c = r + 2 ^ b in iroot_bits e N b (if c ^ e \<le> N then c else r))"

definition frac_root32 :: "nat \<Rightarrow> int \<Rightarrow> w32" where
  "frac_root32 e p = word_of_int (iroot_bits e (p * 2 ^ (32 * e)) 36 0)"

definition K256 :: "w32 list" where
  "K256 = map (frac_root32 3) primes64"

definition H256 :: "w32 list" where
  "H256 = map (frac_root32 2) (take 8 primes64)"

text \<open>The bit length of the message as eight bytes, most significant first.\<close>

definition be_bytes :: "int \<Rightarrow> int list" where
  "be_bytes n =
     map (\<lambda>d. (n div d) mod 256)
       [72057594037927936, 281474976710656, 1099511627776, 4294967296, 16777216, 65536,
        256, 1]"

definition pad :: "int list \<Rightarrow> int list" where
  "pad bs =
     (let l = int (length bs); z = (119 - l mod 64) mod 64
      in bs @ [128] @ replicate (nat z) 0 @ be_bytes (8 * l))"

fun words_of :: "int list \<Rightarrow> w32 list" where
  "words_of (a # b # c # d # bs) =
     word_of_int (((a * 256 + b) * 256 + c) * 256 + d) # words_of bs"
| "words_of bs = []"

fun chunks :: "nat \<Rightarrow> 'a list \<Rightarrow> 'a list list" where
  "chunks 0 xs = []"
| "chunks (Suc n) xs = take 16 xs # chunks n (drop 16 xs)"

text \<open>The message schedule, the newest word first.\<close>

fun extend :: "nat \<Rightarrow> w32 list \<Rightarrow> w32 list" where
  "extend 0 ws = ws"
| "extend (Suc n) ws =
     extend n ((ssig1 (ws ! 1) + ws ! 6 + ssig0 (ws ! 14) + ws ! 15) # ws)"

definition round256 :: "w32 list \<Rightarrow> w32 \<times> w32 \<Rightarrow> w32 list" where
  "round256 s kw =
     (let a = s ! 0; b = s ! 1; c = s ! 2; d = s ! 3;
          e = s ! 4; f = s ! 5; g = s ! 6; hh = s ! 7;
          t1 = hh + bsig1 e + Ch e f g + fst kw + snd kw;
          t2 = bsig0 a + Maj a b c
      in [t1 + t2, a, b, c, d + t1, e, f, g])"

definition compress :: "w32 list \<Rightarrow> w32 list \<Rightarrow> w32 list \<Rightarrow> w32 list" where
  "compress ks s blk = map2 (+) s (foldl round256 s (zip ks (rev (extend 48 (rev blk)))))"

definition hexdigit :: "int \<Rightarrow> char" where
  "hexdigit n = ''0123456789abcdef'' ! nat n"

definition hex32 :: "w32 \<Rightarrow> string" where
  "hex32 w =
     map (\<lambda>d. hexdigit ((uint w div d) mod 16))
       [268435456, 16777216, 1048576, 65536, 4096, 256, 16, 1]"

definition sha256_hex :: digest where
  "sha256_hex s =
     (let ws = words_of (pad (map of_char s))
      in concat (map hex32 (foldl (compress K256) H256 (chunks (length ws div 16) ws))))"

section \<open>Blocks\<close>

text \<open>
  The packages pbft, raft and paxos declare the same \<open>Block\<close> struct; pow, pos and dpos
  add one field each.
\<close>

record Block =
  Index :: int
  Timestamp :: string
  Data :: string
  PrevHash :: string
  Hash :: string

record Block_pow = Block +
  Nonce :: int

record Block_pos = Block +
  Validator :: string

record Block_dpos = Block +
  Delegate :: string

text \<open>pow's \<open>Blockchain\<close> has the field \<open>Blocks\<close> only; the other packages add theirs.\<close>

record 'b Blockchain =
  Blocks :: "'b list"

text \<open>The chain-integrity condition: every block after the first names the hash before it.\<close>

fun chain_linked :: "'a Block_scheme list \<Rightarrow> bool" where
  "chain_linked (b1 # b2 # bs) = (PrevHash b2 = Hash b1 \<and> chain_linked (b2 # bs))"
| "chain_linked bs = True"

section \<open>Proof of Work (algorithms/pow/pow.go)\<close>

definition CalculateHash_pow :: "digest \<Rightarrow> Block_pow \<Rightarrow> string" where
  "CalculateHash_pow h b =
     h (Itoa (Index b) @ Timestamp b @ Data b @ PrevHash b @ Itoa (Nonce b))"

text \<open>
  \<open>MineBlock\<close>: the loop test slices \<open>b.Hash[:difficulty]\<close> with \<open>difficulty = 4\<close>, which
  panics on a string shorter than 4. The loop has no bound, so the result is an option:
  \<open>None\<close> is a loop that never ends.
\<close>

partial_function (option) MineBlock :: "digest \<Rightarrow> Block_pow \<Rightarrow> (error + Block_pow) option" where
  "MineBlock h b =
     (if length (Hash b) < 4 then Some (Inl SliceBoundsOutOfRange)
      else if take 4 (Hash b) \<noteq> ''0000'' then
        (let b1 = b\<lparr>Nonce := wrap64 (Nonce b + 1)\<rparr>
         in MineBlock h (b1\<lparr>Hash := CalculateHash_pow h b1\<rparr>))
      else Some (Inr b))"

text \<open>\<open>NewBlock\<close> leaves \<open>Hash\<close> at its zero value, the empty string, and mines.\<close>

definition NewBlock_pow :: "digest \<Rightarrow> string \<Rightarrow> string \<Rightarrow> string \<Rightarrow> int \<Rightarrow> (error + Block_pow) option" where
  "NewBlock_pow h now data prevHash index =
     MineBlock h \<lparr>Index = index, Timestamp = now, Data = data, PrevHash = prevHash,
                  Hash = [], Nonce = 0\<rparr>"

definition AddBlock_pow :: "digest \<Rightarrow> string \<Rightarrow> Block_pow Blockchain \<Rightarrow> string \<Rightarrow> (error + Block_pow Blockchain) option" where
  "AddBlock_pow h now bc data =
     (case lastBlock (Blocks bc) of
        Inl e \<Rightarrow> Some (Inl e)
      | Inr prevBlock \<Rightarrow>
          (case NewBlock_pow h now data (Hash prevBlock) (wrap64 (Index prevBlock + 1)) of
             None \<Rightarrow> None
           | Some (Inl e) \<Rightarrow> Some (Inl e)
           | Some (Inr newBlock) \<Rightarrow> Some (Inr (bc\<lparr>Blocks := Blocks bc @ [newBlock]\<rparr>))))"

definition NewBlockchain_pow :: "digest \<Rightarrow> string \<Rightarrow> (error + Block_pow Blockchain) option" where
  "NewBlockchain_pow h now =
     (case NewBlock_pow h now ''Genesis Block'' [] 0 of
        None \<Rightarrow> None
      | Some (Inl e) \<Rightarrow> Some (Inl e)
      | Some (Inr genesisBlock) \<Rightarrow> Some (Inr \<lparr>Blocks = [genesisBlock]\<rparr>))"

section \<open>The shared ledger of pbft, raft and paxos\<close>

text \<open>
  In these three packages every \<open>Node\<close> holds a pointer \<open>*Blockchain\<close>, and the nodes of
  a network all point to the one \<open>Blockchain\<close> that holds them. The aliasing decides what
  a commit loop does, so the blockchains live in an explicit heap: an address is an index
  into the list of allocated objects, a pointer is an address or nil (\<open>None\<close>), and
  nothing is ever freed.
\<close>

type_synonym addr = nat
type_synonym ptr = "addr option"
type_synonym 'c heap = "'c list"

definition deref :: "'c heap \<Rightarrow> ptr \<Rightarrow> error + 'c" where
  "deref hp p =
     (case p of
        None \<Rightarrow> Inl NilPointerDereference
      | Some a \<Rightarrow> if a < length hp then Inr (hp ! a) else Inl NilPointerDereference)"

record Node =
  ID :: int
  Blockchain :: ptr

record Node_pbft = Node +
  IsPrimary :: bool
  State :: string

record Node_raft = Node +
  IsLeader :: bool

record Proposal =
  ProposalID :: int
  Data_prop :: string
  Accepted :: bool

record Node_paxos = Node +
  Proposals :: "Proposal list"

text \<open>
  pbft's and paxos's \<open>Blockchain\<close> are \<open>Blocks\<close> and \<open>Nodes\<close>; raft's adds \<open>Leader\<close>, a
  pointer \<open>*Node\<close>: nil, or the address of element \<open>i\<close> of the \<open>Nodes\<close> of the
  blockchain at address \<open>a\<close>, written \<open>Some (a, i)\<close>.
\<close>

record 'n Blockchain_net = "Block Blockchain" +
  Nodes :: "'n list"

record Blockchain_raft = "Node_raft Blockchain_net" +
  Leader :: "(addr \<times> nat) option"

text \<open>
  \<open>CalculateHash\<close>, \<open>NewBlock\<close>, \<open>AddBlock\<close>, \<open>ProposeBlock\<close>, \<open>VerifyBlock\<close> and
  \<open>CommitBlock\<close> are the same text in pbft and raft (the first three in paxos too), so
  each is given once, for any kind of node and of blockchain.
\<close>

definition CalculateHash :: "digest \<Rightarrow> Block \<Rightarrow> string" where
  "CalculateHash h b = h (Itoa (Index b) @ Timestamp b @ Data b @ PrevHash b)"

definition NewBlock :: "digest \<Rightarrow> string \<Rightarrow> string \<Rightarrow> string \<Rightarrow> int \<Rightarrow> Block" where
  "NewBlock h now data prevHash index =
     (let block = \<lparr>Index = index, Timestamp = now, Data = data, PrevHash = prevHash,
                   Hash = []\<rparr>
      in block\<lparr>Hash := CalculateHash h block\<rparr>)"

definition AddBlock :: "(Block, 'z) Blockchain_scheme \<Rightarrow> Block \<Rightarrow> (Block, 'z) Blockchain_scheme" where
  "AddBlock bc block = bc\<lparr>Blocks := Blocks bc @ [block]\<rparr>"

definition ProposeBlock :: "digest \<Rightarrow> string \<Rightarrow> (Block, 'z) Blockchain_scheme heap \<Rightarrow> 'a Node_scheme \<Rightarrow> string \<Rightarrow> error + Block" where
  "ProposeBlock h now hp n data =
     (case deref hp (Blockchain n) of
        Inl e \<Rightarrow> Inl e
      | Inr bc \<Rightarrow>
          (case lastBlock (Blocks bc) of
             Inl e \<Rightarrow> Inl e
           | Inr prevBlock \<Rightarrow>
               Inr (NewBlock h now data (Hash prevBlock) (wrap64 (Index prevBlock + 1)))))"

definition VerifyBlock :: "digest \<Rightarrow> (Block, 'z) Blockchain_scheme heap \<Rightarrow> 'a Node_scheme \<Rightarrow> Block \<Rightarrow> error + bool" where
  "VerifyBlock h hp n block =
     (case deref hp (Blockchain n) of
        Inl e \<Rightarrow> Inl e
      | Inr bc \<Rightarrow>
          (case lastBlock (Blocks bc) of
             Inl e \<Rightarrow> Inl e
           | Inr prevBlock \<Rightarrow>
               Inr (if PrevHash block = Hash prevBlock
                    then Hash block = CalculateHash h block
                    else False)))"

definition CommitBlock :: "(Block, 'z) Blockchain_scheme heap \<Rightarrow> 'a Node_scheme \<Rightarrow> Block \<Rightarrow> error + (Block, 'z) Blockchain_scheme heap" where
  "CommitBlock hp n block =
     (case Blockchain n of
        None \<Rightarrow> Inl NilPointerDereference
      | Some a \<Rightarrow>
          if a < length hp then Inr (hp[a := AddBlock (hp ! a) block])
          else Inl NilPointerDereference)"

text \<open>
  The loop \<open>for _, node := range bc.Nodes { if node.VerifyBlock(block) { approvals++ } }\<close>
  of both \<open>BroadcastBlock\<close>s, and the loop
  \<open>for _, node := range bc.Nodes { node.CommitBlock(newBlock) }\<close> of \<open>RunPBFT\<close> and
  \<open>Lead\<close>. The slice \<open>bc.Nodes\<close> is read once, before the loop; the body writes
  \<open>Blocks\<close> only.
\<close>

fun count_approvals :: "digest \<Rightarrow> (Block, 'z) Blockchain_scheme heap \<Rightarrow> 'a Node_scheme list \<Rightarrow> Block \<Rightarrow> int \<Rightarrow> error + int" where
  "count_approvals h hp [] block approvals = Inr approvals"
| "count_approvals h hp (node # nodes) block approvals =
     (case VerifyBlock h hp node block of
        Inl e \<Rightarrow> Inl e
      | Inr ok \<Rightarrow> count_approvals h hp nodes block (if ok then approvals + 1 else approvals))"

fun commit_all :: "(Block, 'z) Blockchain_scheme heap \<Rightarrow> 'a Node_scheme list \<Rightarrow> Block \<Rightarrow> error + (Block, 'z) Blockchain_scheme heap" where
  "commit_all hp [] block = Inr hp"
| "commit_all hp (node # nodes) block =
     (case CommitBlock hp node block of
        Inl e \<Rightarrow> Inl e
      | Inr hp' \<Rightarrow> commit_all hp' nodes block)"

section \<open>PBFT (package pbft)\<close>

text \<open>
  \<open>len(bc.Nodes)\<close> is far below \<open>2 ^ 62\<close> (a \<open>Node\<close> takes several words of memory), so
  \<open>2 * totalNodes\<close> does not wrap.
\<close>

definition BroadcastBlock_pbft :: "digest \<Rightarrow> (Block, ('a Node_scheme, 'z) Blockchain_net_ext) Blockchain_scheme heap \<Rightarrow> (Block, ('a Node_scheme, 'z) Blockchain_net_ext) Blockchain_scheme \<Rightarrow> Block \<Rightarrow> error + bool" where
  "BroadcastBlock_pbft h hp bc block =
     (let totalNodes = int (length (Nodes bc))
      in case count_approvals h hp (Nodes bc) block 0 of
           Inl e \<Rightarrow> Inl e
         | Inr approvals \<Rightarrow> Inr (approvals \<ge> quo (2 * totalNodes) 3))"

definition RunPBFT :: "digest \<Rightarrow> string \<Rightarrow> Node_pbft Blockchain_net heap \<Rightarrow> ptr \<Rightarrow> string \<Rightarrow> error + Node_pbft Blockchain_net heap" where
  "RunPBFT h now hp bc data =
     (case deref hp bc of
        Inl e \<Rightarrow> Inl e
      | Inr b \<Rightarrow>
          (case Nodes b of
             [] \<Rightarrow> Inl IndexOutOfRange
           | primary # _ \<Rightarrow>
               (case ProposeBlock h now hp primary data of
                  Inl e \<Rightarrow> Inl e
                | Inr newBlock \<Rightarrow>
                    (case BroadcastBlock_pbft h hp b newBlock of
                       Inl e \<Rightarrow> Inl e
                     | Inr ok \<Rightarrow>
                         if ok then commit_all hp (Nodes b) newBlock else Inr hp))))"

definition NewNode_pbft :: "int \<Rightarrow> bool \<Rightarrow> ptr \<Rightarrow> Node_pbft" where
  "NewNode_pbft ident isPrimary blockchain =
     \<lparr>ID = ident, Blockchain = blockchain, IsPrimary = isPrimary, State = []\<rparr>"

text \<open>
  \<open>NewBlockchain\<close> of pbft and paxos: the genesis block and no nodes. The new object goes
  to the next free address, which is returned.
\<close>

definition NewBlockchain_net :: "digest \<Rightarrow> string \<Rightarrow> 'n Blockchain_net heap \<Rightarrow> 'n Blockchain_net heap \<times> ptr" where
  "NewBlockchain_net h now hp =
     (let genesisBlock = NewBlock h now ''Genesis Block'' [] 0
      in (hp @ [\<lparr>Blocks = [genesisBlock], Nodes = []\<rparr>], Some (length hp)))"

text \<open>\<open>make([]Node, size)\<close> panics on a negative size.\<close>

definition NewPBFTNetwork :: "digest \<Rightarrow> string \<Rightarrow> Node_pbft Blockchain_net heap \<Rightarrow> int \<Rightarrow> error + Node_pbft Blockchain_net heap \<times> ptr" where
  "NewPBFTNetwork h now hp sz =
     (case NewBlockchain_net h now hp of
        (hp1, blockchain) \<Rightarrow>
          if sz < 0 then Inl MakesliceLenOutOfRange
          else
            (let nodes = map (\<lambda>i. NewNode_pbft (int i) (i = 0) blockchain) [0..<nat sz]
             in case deref hp1 blockchain of
                  Inl e \<Rightarrow> Inl e
                | Inr b \<Rightarrow> Inr (hp1[the blockchain := b\<lparr>Nodes := nodes\<rparr>], blockchain)))"

section \<open>Raft (package raft)\<close>

definition BroadcastBlock_raft :: "digest \<Rightarrow> (Block, ('a Node_scheme, 'z) Blockchain_net_ext) Blockchain_scheme heap \<Rightarrow> (Block, ('a Node_scheme, 'z) Blockchain_net_ext) Blockchain_scheme \<Rightarrow> Block \<Rightarrow> error + bool" where
  "BroadcastBlock_raft h hp bc block =
     (let totalNodes = int (length (Nodes bc))
      in case count_approvals h hp (Nodes bc) block 0 of
           Inl e \<Rightarrow> Inl e
         | Inr approvals \<Rightarrow> Inr (approvals > quo totalNodes 2))"

text \<open>
  \<open>Lead\<close> has a pointer receiver and reads \<open>n.IsLeader\<close> and \<open>n.Blockchain\<close> only; it
  writes no \<open>Node\<close>. Its argument is the node pointed to, or \<open>None\<close> for a nil receiver.
\<close>

definition Lead :: "digest \<Rightarrow> string \<Rightarrow> Blockchain_raft heap \<Rightarrow> Node_raft option \<Rightarrow> string \<Rightarrow> error + Blockchain_raft heap" where
  "Lead h now hp np data =
     (case np of
        None \<Rightarrow> Inl NilPointerDereference
      | Some n \<Rightarrow>
          if IsLeader n then
            (case ProposeBlock h now hp n data of
               Inl e \<Rightarrow> Inl e
             | Inr newBlock \<Rightarrow>
                 (case deref hp (Blockchain n) of
                    Inl e \<Rightarrow> Inl e
                  | Inr b \<Rightarrow>
                      (case BroadcastBlock_raft h hp b newBlock of
                         Inl e \<Rightarrow> Inl e
                       | Inr ok \<Rightarrow>
                           if ok then commit_all hp (Nodes b) newBlock else Inr hp)))
          else Inr hp)"

definition NewNode_raft :: "int \<Rightarrow> ptr \<Rightarrow> Node_raft" where
  "NewNode_raft ident blockchain = \<lparr>ID = ident, Blockchain = blockchain, IsLeader = False\<rparr>"

definition NewBlockchain_raft :: "digest \<Rightarrow> string \<Rightarrow> Blockchain_raft heap \<Rightarrow> Blockchain_raft heap \<times> ptr" where
  "NewBlockchain_raft h now hp =
     (let genesisBlock = NewBlock h now ''Genesis Block'' [] 0
      in (hp @ [\<lparr>Blocks = [genesisBlock], Nodes = [], Leader = None\<rparr>], Some (length hp)))"

definition NewRaftNetwork :: "digest \<Rightarrow> string \<Rightarrow> Blockchain_raft heap \<Rightarrow> int \<Rightarrow> error + Blockchain_raft heap \<times> ptr" where
  "NewRaftNetwork h now hp sz =
     (case NewBlockchain_raft h now hp of
        (hp1, blockchain) \<Rightarrow>
          if sz < 0 then Inl MakesliceLenOutOfRange
          else
            (let nodes = map (\<lambda>i. NewNode_raft (int i) blockchain) [0..<nat sz]
             in case deref hp1 blockchain of
                  Inl e \<Rightarrow> Inl e
                | Inr b \<Rightarrow> Inr (hp1[the blockchain := b\<lparr>Nodes := nodes\<rparr>], blockchain)))"

text \<open>
  \<open>RequestVote\<close> on the node at \<open>Nodes[i]\<close> of the blockchain at address \<open>a\<close> (the
  receiver is \<open>&bc.Nodes[i]\<close>). \<open>VoteFor\<close> returns true for every node, so the votes are
  the number of nodes of the receiver's own blockchain.
\<close>

definition VoteFor :: "Node_raft \<Rightarrow> int \<Rightarrow> bool" where
  "VoteFor n candidateID = True"

definition RequestVote :: "Blockchain_raft heap \<Rightarrow> addr \<Rightarrow> nat \<Rightarrow> error + Blockchain_raft heap \<times> bool" where
  "RequestVote hp a i =
     (case deref hp (Some a) of
        Inl e \<Rightarrow> Inl e
      | Inr holder \<Rightarrow>
          if i < length (Nodes holder) then
            (let n = Nodes holder ! i
             in case deref hp (Blockchain n) of
                  Inl e \<Rightarrow> Inl e
                | Inr b \<Rightarrow>
                    (let totalNodes = int (length (Nodes b));
                         votes = int (length (filter (\<lambda>node. VoteFor node (ID n)) (Nodes b)))
                     in if votes > quo totalNodes 2 then
                          (let hp1 = hp[a := holder\<lparr>Nodes := (Nodes holder)[i := n\<lparr>IsLeader := True\<rparr>]\<rparr>];
                               c = the (Blockchain n)
                           in Inr (hp1[c := (hp1 ! c)\<lparr>Leader := Some (a, i)\<rparr>], True))
                        else Inr (hp, False)))
          else Inl IndexOutOfRange)"

section \<open>Paxos (algorithms/paxos/paxos.go)\<close>

text \<open>
  \<open>Propose\<close> appends to the \<open>Proposals\<close> of its receiver. The updated receiver is
  returned with the proposal; what the update reaches depends on what the caller's
  pointer points to.
\<close>

definition Propose :: "Node_paxos \<Rightarrow> string \<Rightarrow> int \<Rightarrow> Node_paxos \<times> Proposal" where
  "Propose n data proposalID =
     (let proposal = \<lparr>ProposalID = proposalID, Data_prop = data, Accepted = False\<rparr>
      in (n\<lparr>Proposals := Proposals n @ [proposal]\<rparr>, proposal))"

text \<open>
  \<open>AcceptProposal\<close>: \<open>for _, p := range n.Proposals\<close> gives \<open>p\<close> a copy of the element;
  \<open>p.Accepted = true\<close> writes that copy, which is dropped at the return.
\<close>

fun accept_loop :: "Proposal list \<Rightarrow> Proposal \<Rightarrow> bool" where
  "accept_loop [] proposal = False"
| "accept_loop (p # ps) proposal =
     (if ProposalID p = ProposalID proposal
      then (let p' = p\<lparr>Accepted := True\<rparr> in True)
      else accept_loop ps proposal)"

definition AcceptProposal :: "Node_paxos \<Rightarrow> Proposal \<Rightarrow> bool" where
  "AcceptProposal n proposal = accept_loop (Proposals n) proposal"

fun count_accepts :: "Node_paxos list \<Rightarrow> Proposal \<Rightarrow> int \<Rightarrow> int" where
  "count_accepts [] proposal approvals = approvals"
| "count_accepts (node # nodes) proposal approvals =
     count_accepts nodes proposal
       (if AcceptProposal node proposal then approvals + 1 else approvals)"

definition BroadcastProposal :: "Node_paxos Blockchain_net \<Rightarrow> Proposal \<Rightarrow> bool" where
  "BroadcastProposal bc proposal =
     (let totalNodes = int (length (Nodes bc))
      in count_accepts (Nodes bc) proposal 0 > quo totalNodes 2)"

definition CommitProposal :: "digest \<Rightarrow> string \<Rightarrow> Node_paxos Blockchain_net heap \<Rightarrow> Node_paxos \<Rightarrow> Proposal \<Rightarrow> error + Node_paxos Blockchain_net heap" where
  "CommitProposal h now hp n proposal =
     (case deref hp (Blockchain n) of
        Inl e \<Rightarrow> Inl e
      | Inr bc \<Rightarrow>
          (case lastBlock (Blocks bc) of
             Inl e \<Rightarrow> Inl e
           | Inr prevBlock \<Rightarrow>
               (let newBlock = NewBlock h now (Data_prop proposal) (Hash prevBlock)
                                 (wrap64 (Index prevBlock + 1))
                in Inr (hp[the (Blockchain n) := AddBlock bc newBlock]))))"

text \<open>
  The commit loop of \<open>RunPaxos\<close>; each \<open>CommitProposal\<close> reads the clock, \<open>clock k\<close> being
  the text read by the \<open>k\<close>-th call.
\<close>

fun commit_proposals :: "digest \<Rightarrow> (nat \<Rightarrow> string) \<Rightarrow> nat \<Rightarrow> Node_paxos Blockchain_net heap \<Rightarrow> Node_paxos list \<Rightarrow> Proposal \<Rightarrow> error + Node_paxos Blockchain_net heap" where
  "commit_proposals h clock k hp [] proposal = Inr hp"
| "commit_proposals h clock k hp (node # nodes) proposal =
     (case CommitProposal h (clock k) hp node proposal of
        Inl e \<Rightarrow> Inl e
      | Inr hp' \<Rightarrow> commit_proposals h clock (Suc k) hp' nodes proposal)"

text \<open>
  \<open>RunPaxos\<close>: \<open>proposer := bc.Nodes[0]\<close> copies the node into a local variable, and
  \<open>proposer.Propose\<close> takes the address of that variable. The appended proposal lands in
  the copy; \<open>bc.Nodes\<close>, which the broadcast walks, is not written.
\<close>

definition RunPaxos :: "digest \<Rightarrow> (nat \<Rightarrow> string) \<Rightarrow> Node_paxos Blockchain_net heap \<Rightarrow> ptr \<Rightarrow> string \<Rightarrow> int \<Rightarrow> error + Node_paxos Blockchain_net heap" where
  "RunPaxos h clock hp bc data proposalID =
     (case deref hp bc of
        Inl e \<Rightarrow> Inl e
      | Inr b \<Rightarrow>
          (case Nodes b of
             [] \<Rightarrow> Inl IndexOutOfRange
           | n0 # _ \<Rightarrow>
               (case Propose n0 data proposalID of
                  (proposer, proposal) \<Rightarrow>
                    if BroadcastProposal b proposal
                    then commit_proposals h clock 0 hp (Nodes b) proposal
                    else Inr hp)))"

definition NewNode_paxos :: "int \<Rightarrow> ptr \<Rightarrow> Node_paxos" where
  "NewNode_paxos ident blockchain = \<lparr>ID = ident, Blockchain = blockchain, Proposals = []\<rparr>"

definition NewPaxosNetwork :: "digest \<Rightarrow> string \<Rightarrow> Node_paxos Blockchain_net heap \<Rightarrow> int \<Rightarrow> error + Node_paxos Blockchain_net heap \<times> ptr" where
  "NewPaxosNetwork h now hp sz =
     (case NewBlockchain_net h now hp of
        (hp1, blockchain) \<Rightarrow>
          if sz < 0 then Inl MakesliceLenOutOfRange
          else
            (let nodes = map (\<lambda>i. NewNode_paxos (int i) blockchain) [0..<nat sz]
             in case deref hp1 blockchain of
                  Inl e \<Rightarrow> Inl e
                | Inr b \<Rightarrow> Inr (hp1[the blockchain := b\<lparr>Nodes := nodes\<rparr>], blockchain)))"

section \<open>Proof of Stake (algorithms/pos/pos.go)\<close>

record Blockchain_pos = "Block_pos Blockchain" +
  Validators :: "string list"
  Stakes :: "string \<rightharpoonup> int"

definition CalculateHash_pos :: "digest \<Rightarrow> Block_pos \<Rightarrow> string" where
  "CalculateHash_pos h b =
     h (Itoa (Index b) @ Timestamp b @ Data b @ PrevHash b @ Validator b)"

definition NewBlock_pos :: "digest \<Rightarrow> string \<Rightarrow> string \<Rightarrow> string \<Rightarrow> int \<Rightarrow> string \<Rightarrow> Block_pos" where
  "NewBlock_pos h now data prevHash index validator =
     (let block = \<lparr>Index = index, Timestamp = now, Data = data, PrevHash = prevHash,
                   Hash = [], Validator = validator\<rparr>
      in block\<lparr>Hash := CalculateHash_pos h block\<rparr>)"

text \<open>
  \<open>SelectValidator\<close> ranges over the map \<open>bc.Stakes\<close> twice. Go fixes no order for a
  \<open>range\<close> over a map, and the two loops need not agree: the keys in the order each loop
  meets them are the arguments \<open>enum1\<close> and \<open>enum2\<close>. An enumeration of a map lists each
  key of the map once; a key the map does not hold is passed over. Both sums are Go
  \<open>int\<close> additions.
\<close>

fun sum_stakes :: "(string \<rightharpoonup> int) \<Rightarrow> string list \<Rightarrow> int \<Rightarrow> int" where
  "sum_stakes st [] totalStake = totalStake"
| "sum_stakes st (v # vs) totalStake =
     (case st v of
        None \<Rightarrow> sum_stakes st vs totalStake
      | Some stake \<Rightarrow> sum_stakes st vs (wrap64 (totalStake + stake)))"

text \<open>The second loop; \<open>None\<close> is the loop running to its end without a \<open>return\<close>.\<close>

fun walk_stakes :: "(string \<rightharpoonup> int) \<Rightarrow> string list \<Rightarrow> int \<Rightarrow> int \<Rightarrow> string option" where
  "walk_stakes st [] pick runningTotal = None"
| "walk_stakes st (v # vs) pick runningTotal =
     (case st v of
        None \<Rightarrow> walk_stakes st vs pick runningTotal
      | Some stake \<Rightarrow>
          (let runningTotal' = wrap64 (runningTotal + stake)
           in if runningTotal' > pick then Some v
              else walk_stakes st vs pick runningTotal'))"

definition SelectValidator :: "Blockchain_pos \<Rightarrow> string list \<Rightarrow> string list \<Rightarrow> int \<Rightarrow> error + string" where
  "SelectValidator bc enum1 enum2 draw =
     (let totalStake = sum_stakes (Stakes bc) enum1 0
      in case Intn draw totalStake of
           Inl e \<Rightarrow> Inl e
         | Inr pick \<Rightarrow>
             Inr (case walk_stakes (Stakes bc) enum2 pick 0 of
                    Some validator \<Rightarrow> validator
                  | None \<Rightarrow> []))"

definition AddBlock_pos :: "digest \<Rightarrow> string \<Rightarrow> Blockchain_pos \<Rightarrow> string list \<Rightarrow> string list \<Rightarrow> int \<Rightarrow> string \<Rightarrow> error + Blockchain_pos" where
  "AddBlock_pos h now bc enum1 enum2 draw data =
     (case lastBlock (Blocks bc) of
        Inl e \<Rightarrow> Inl e
      | Inr prevBlock \<Rightarrow>
          (case SelectValidator bc enum1 enum2 draw of
             Inl e \<Rightarrow> Inl e
           | Inr validator \<Rightarrow>
               (let newBlock = NewBlock_pos h now data (Hash prevBlock)
                                 (wrap64 (Index prevBlock + 1)) validator
                in Inr (bc\<lparr>Blocks := Blocks bc @ [newBlock]\<rparr>))))"

definition NewBlockchain_pos :: "digest \<Rightarrow> string \<Rightarrow> string list \<Rightarrow> (string \<rightharpoonup> int) \<Rightarrow> error + Blockchain_pos" where
  "NewBlockchain_pos h now validators stakes =
     (case validators of
        [] \<Rightarrow> Inl IndexOutOfRange
      | v0 # _ \<Rightarrow>
          Inr \<lparr>Blocks = [NewBlock_pos h now ''Genesis Block'' [] 0 v0],
               Validators = validators, Stakes = stakes\<rparr>)"

text \<open>
  The number of values \<open>p\<close> of \<open>[0, totalStake)\<close> for which the draw \<open>p\<close> selects \<open>v\<close>.
\<close>

definition draws_selecting :: "Blockchain_pos \<Rightarrow> string list \<Rightarrow> string list \<Rightarrow> string \<Rightarrow> nat" where
  "draws_selecting bc enum1 enum2 v =
     length (filter (\<lambda>p. SelectValidator bc enum1 enum2 p = Inr v)
                    [0 .. sum_stakes (Stakes bc) enum1 0 - 1])"

text \<open>The sum of the stakes of an enumeration, in the integers (no wrap-around).\<close>

definition stake_sum :: "(string \<rightharpoonup> int) \<Rightarrow> string list \<Rightarrow> int" where
  "stake_sum st enum = sum_list (map (\<lambda>v. case st v of None \<Rightarrow> 0 | Some s \<Rightarrow> s) enum)"

text \<open>Every stake of the enumeration is at least 0.\<close>

definition stakes_nonneg :: "(string \<rightharpoonup> int) \<Rightarrow> string list \<Rightarrow> bool" where
  "stakes_nonneg st enum = list_all (\<lambda>v. case st v of None \<Rightarrow> True | Some s \<Rightarrow> 0 \<le> s) enum"

section \<open>Delegated Proof of Stake (algorithms/dpos/dpos.go)\<close>

text \<open>
  \<open>Voters\<close> is a Go map, which may be nil (\<open>None\<close>): reading a nil map is allowed,
  assigning to an entry of one panics.
\<close>

record Blockchain_dpos = "Block_dpos Blockchain" +
  Delegates :: "string list"
  Voters :: "(string \<rightharpoonup> string) option"

definition CalculateHash_dpos :: "digest \<Rightarrow> Block_dpos \<Rightarrow> string" where
  "CalculateHash_dpos h b =
     h (Itoa (Index b) @ Timestamp b @ Data b @ PrevHash b @ Delegate b)"

definition NewBlock_dpos :: "digest \<Rightarrow> string \<Rightarrow> string \<Rightarrow> string \<Rightarrow> int \<Rightarrow> string \<Rightarrow> Block_dpos" where
  "NewBlock_dpos h now data prevHash index delegate =
     (let block = \<lparr>Index = index, Timestamp = now, Data = data, PrevHash = prevHash,
                   Hash = [], Delegate = delegate\<rparr>
      in block\<lparr>Hash := CalculateHash_dpos h block\<rparr>)"

definition SelectDelegate :: "Blockchain_dpos \<Rightarrow> int \<Rightarrow> error + string" where
  "SelectDelegate bc draw =
     (case Intn draw (int (length (Delegates bc))) of
        Inl e \<Rightarrow> Inl e
      | Inr index \<Rightarrow> Inr (Delegates bc ! nat index))"

definition AddBlock_dpos :: "digest \<Rightarrow> string \<Rightarrow> Blockchain_dpos \<Rightarrow> int \<Rightarrow> string \<Rightarrow> error + Blockchain_dpos" where
  "AddBlock_dpos h now bc draw data =
     (case lastBlock (Blocks bc) of
        Inl e \<Rightarrow> Inl e
      | Inr prevBlock \<Rightarrow>
          (case SelectDelegate bc draw of
             Inl e \<Rightarrow> Inl e
           | Inr delegate \<Rightarrow>
               (let newBlock = NewBlock_dpos h now data (Hash prevBlock)
                                 (wrap64 (Index prevBlock + 1)) delegate
                in Inr (bc\<lparr>Blocks := Blocks bc @ [newBlock]\<rparr>))))"

definition NewBlockchain_dpos :: "digest \<Rightarrow> string \<Rightarrow> string list \<Rightarrow> (string \<rightharpoonup> string) option \<Rightarrow> error + Blockchain_dpos" where
  "NewBlockchain_dpos h now delegates voters =
     (case delegates of
        [] \<Rightarrow> Inl IndexOutOfRange
      | d0 # _ \<Rightarrow>
          Inr \<lparr>Blocks = [NewBlock_dpos h now ''Genesis Block'' [] 0 d0],
               Delegates = delegates, Voters = voters\<rparr>)"

definition Vote :: "Blockchain_dpos \<Rightarrow> string \<Rightarrow> string \<Rightarrow> error + Blockchain_dpos" where
  "Vote bc voter delegate =
     (case Voters bc of
        None \<Rightarrow> Inl NilMapAssignment
      | Some m \<Rightarrow> Inr (bc\<lparr>Voters := Some (m(voter \<mapsto> delegate))\<rparr>))"

section \<open>The test scenarios\<close>

text \<open>The \<open>Blocks\<close> of the blockchain a pointer points to.\<close>

definition blocks_at :: "(Block, 'z) Blockchain_scheme heap \<Rightarrow> ptr \<Rightarrow> error + Block list" where
  "blocks_at hp bc = (case deref hp bc of Inl e \<Rightarrow> Inl e | Inr b \<Rightarrow> Inr (Blocks b))"

text \<open>
  \<open>TestPBFT\<close> (tests/test\_pbft.go): a network, two rounds, then \<open>blockchain.Blocks\<close>.
\<close>

definition pbft_session :: "digest \<Rightarrow> string \<Rightarrow> string \<Rightarrow> string \<Rightarrow> Node_pbft Blockchain_net heap \<Rightarrow> int \<Rightarrow> string \<Rightarrow> string \<Rightarrow> error + Block list" where
  "pbft_session h now0 now1 now2 hp sz data1 data2 =
     (case NewPBFTNetwork h now0 hp sz of
        Inl e \<Rightarrow> Inl e
      | Inr (hp0, blockchain) \<Rightarrow>
          (case RunPBFT h now1 hp0 blockchain data1 of
             Inl e \<Rightarrow> Inl e
           | Inr hp1 \<Rightarrow>
               (case RunPBFT h now2 hp1 blockchain data2 of
                  Inl e \<Rightarrow> Inl e
                | Inr hp2 \<Rightarrow> blocks_at hp2 blockchain)))"

text \<open>A network and one round.\<close>

definition pbft_round :: "digest \<Rightarrow> string \<Rightarrow> string \<Rightarrow> Node_pbft Blockchain_net heap \<Rightarrow> int \<Rightarrow> string \<Rightarrow> error + Block list" where
  "pbft_round h now0 now1 hp sz data =
     (case NewPBFTNetwork h now0 hp sz of
        Inl e \<Rightarrow> Inl e
      | Inr (hp0, blockchain) \<Rightarrow>
          (case RunPBFT h now1 hp0 blockchain data of
             Inl e \<Rightarrow> Inl e
           | Inr hp1 \<Rightarrow> blocks_at hp1 blockchain))"

text \<open>
  The Raft scenario of the specification: a network, \<open>Nodes[0].RequestVote()\<close>, then
  \<open>Leader.Lead\<close> twice. \<open>node_at\<close> reads the node a \<open>*Node\<close> points to.
\<close>

definition node_at :: "Blockchain_raft heap \<Rightarrow> (addr \<times> nat) option \<Rightarrow> Node_raft option" where
  "node_at hp p =
     (case p of
        None \<Rightarrow> None
      | Some (a, i) \<Rightarrow>
          if a < length hp \<and> i < length (Nodes (hp ! a)) then Some (Nodes (hp ! a) ! i)
          else None)"

definition raft_session :: "digest \<Rightarrow> string \<Rightarrow> string \<Rightarrow> string \<Rightarrow> Blockchain_raft heap \<Rightarrow> int \<Rightarrow> string \<Rightarrow> string \<Rightarrow> error + Block list" where
  "raft_session h now0 now1 now2 hp sz data1 data2 =
     (case NewRaftNetwork h now0 hp sz of
        Inl e \<Rightarrow> Inl e
      | Inr (hp0, blockchain) \<Rightarrow>
          (case RequestVote hp0 (the blockchain) 0 of
             Inl e \<Rightarrow> Inl e
           | Inr (hp1, elected) \<Rightarrow>
               (case deref hp1 blockchain of
                  Inl e \<Rightarrow> Inl e
                | Inr b1 \<Rightarrow>
                    (case Lead h now1 hp1 (node_at hp1 (Leader b1)) data1 of
                       Inl e \<Rightarrow> Inl e
                     | Inr hp2 \<Rightarrow>
                         (case deref hp2 blockchain of
                            Inl e \<Rightarrow> Inl e
                          | Inr b2 \<Rightarrow>
                              (case Lead h now2 hp2 (node_at hp2 (Leader b2)) data2 of
                                 Inl e \<Rightarrow> Inl e
                               | Inr hp3 \<Rightarrow> blocks_at hp3 blockchain))))))"

text \<open>
  \<open>TestPaxos\<close> (tests/test\_paxos.go): a network, two rounds, then \<open>blockchain.Blocks\<close>.
\<close>

definition paxos_session :: "digest \<Rightarrow> string \<Rightarrow> (nat \<Rightarrow> string) \<Rightarrow> (nat \<Rightarrow> string) \<Rightarrow> Node_paxos Blockchain_net heap \<Rightarrow> int \<Rightarrow> string \<Rightarrow> int \<Rightarrow> string \<Rightarrow> int \<Rightarrow> error + Block list" where
  "paxos_session h now0 clock1 clock2 hp sz data1 id1 data2 id2 =
     (case NewPaxosNetwork h now0 hp sz of
        Inl e \<Rightarrow> Inl e
      | Inr (hp0, blockchain) \<Rightarrow>
          (case RunPaxos h clock1 hp0 blockchain data1 id1 of
             Inl e \<Rightarrow> Inl e
           | Inr hp1 \<Rightarrow>
               (case RunPaxos h clock2 hp1 blockchain data2 id2 of
                  Inl e \<Rightarrow> Inl e
                | Inr hp2 \<Rightarrow> blocks_at hp2 blockchain)))"

section \<open>The quorum rules in the words of the specification\<close>

text \<open>
  \<open>MajorityOverHalf\<close>: \<open>approvals > total/2\<close> with floor division.
  \<open>TwoThirdsOrMore\<close>: \<open>approvals >= floor(2*total/3)\<close>. (\<open>div\<close> on \<open>int\<close> is floor
  division.)
\<close>

definition MajorityOverHalf :: "int \<Rightarrow> int \<Rightarrow> bool" where
  "MajorityOverHalf approvals totalCount = (approvals > totalCount div 2)"

definition TwoThirdsOrMore :: "int \<Rightarrow> int \<Rightarrow> bool" where
  "TwoThirdsOrMore approvals totalCount = (approvals \<ge> (2 * totalCount) div 3)"

text \<open>The number of nodes whose verification, or acceptance, succeeds.\<close>

definition approving :: "digest \<Rightarrow> (Block, 'z) Blockchain_scheme heap \<Rightarrow> 'a Node_scheme list \<Rightarrow> Block \<Rightarrow> int" where
  "approving h hp nodes block =
     int (length (filter (\<lambda>node. VerifyBlock h hp node block = Inr True) nodes))"

definition accepting :: "Node_paxos list \<Rightarrow> Proposal \<Rightarrow> int" where
  "accepting nodes proposal =
     int (length (filter (\<lambda>node. AcceptProposal node proposal) nodes))"

section \<open>Enumerations and sample states\<close>

text \<open>
  \<open>enum\<close> is an order in which a \<open>range\<close> can meet the keys of the map \<open>st\<close>: each key
  once.
\<close>

definition enumerates :: "(string \<rightharpoonup> int) \<Rightarrow> string list \<Rightarrow> bool" where
  "enumerates st enum = (distinct enum \<and> set enum = dom st)"

text \<open>
  Two blockchains whose last hashes differ; the first holds three nodes, of which only
  the first points back to it. All fields of the structs are exported, so a caller can
  build such a state.
\<close>

definition split_pbft :: "Node_pbft Blockchain_net heap" where
  "split_pbft =
     [\<lparr>Blocks = [\<lparr>Index = 0, Timestamp = ''t0'', Data = ''Genesis Block'', PrevHash = [],
                   Hash = ''aa''\<rparr>],
       Nodes = [NewNode_pbft 0 True (Some 0), NewNode_pbft 1 False (Some 1),
                NewNode_pbft 2 False (Some 1)]\<rparr>,
      \<lparr>Blocks = [\<lparr>Index = 0, Timestamp = ''t0'', Data = ''Genesis Block'', PrevHash = [],
                   Hash = ''bb''\<rparr>],
       Nodes = []\<rparr>]"

definition split_raft :: "Blockchain_raft heap" where
  "split_raft =
     [\<lparr>Blocks = [\<lparr>Index = 0, Timestamp = ''t0'', Data = ''Genesis Block'', PrevHash = [],
                   Hash = ''aa''\<rparr>],
       Nodes = [(NewNode_raft 0 (Some 0))\<lparr>IsLeader := True\<rparr>, NewNode_raft 1 (Some 1),
                NewNode_raft 2 (Some 1)],
       Leader = None\<rparr>,
      \<lparr>Blocks = [\<lparr>Index = 0, Timestamp = ''t0'', Data = ''Genesis Block'', PrevHash = [],
                   Hash = ''bb''\<rparr>],
       Nodes = [], Leader = None\<rparr>]"

text \<open>The block that the first node of either state proposes for \<open>tx1\<close> at time \<open>t1\<close>.\<close>

definition sample_block :: Block where
  "sample_block = NewBlock sha256_hex ''t1'' ''tx1'' ''aa'' 1"

text \<open>The heap after \<open>NewPaxosNetwork(5)\<close> in an empty heap.\<close>

definition paxos_five :: "Node_paxos Blockchain_net heap" where
  "paxos_five =
     [\<lparr>Blocks = [NewBlock sha256_hex ''t0'' ''Genesis Block'' [] 0],
       Nodes = map (\<lambda>i. NewNode_paxos (int i) (Some 0)) [0..<5]\<rparr>]"

text \<open>A clock that reads \<open>t1\<close> at every call.\<close>

definition sample_clock :: "nat \<Rightarrow> string" where
  "sample_clock k = ''t1''"

text \<open>
  PoS chains: the stakes of tests/test\_pos.go, a table whose stakes are all zero, and a
  table of three stakes, none negative and each a Go \<open>int\<close>, whose sum is \<open>2 ^ 64 + 5\<close>.
\<close>

definition pos_chain :: "(string \<rightharpoonup> int) \<Rightarrow> Blockchain_pos" where
  "pos_chain stakes =
     \<lparr>Blocks = [NewBlock_pos sha256_hex ''t0'' ''Genesis Block'' [] 0 ''Alice''],
      Validators = [''Alice'', ''Bob''], Stakes = stakes\<rparr>"

definition pos_test_chain :: Blockchain_pos where
  "pos_test_chain = pos_chain [''Alice'' \<mapsto> 70, ''Bob'' \<mapsto> 30]"

definition pos_overflow_chain :: Blockchain_pos where
  "pos_overflow_chain =
     \<lparr>Blocks = [NewBlock_pos sha256_hex ''t0'' ''Genesis Block'' [] 0 ''Alice''],
      Validators = [''Alice'', ''Bob'', ''Carol''],
      Stakes = [''Alice'' \<mapsto> 9223372036854775807, ''Bob'' \<mapsto> 9223372036854775807,
                ''Carol'' \<mapsto> 7]\<rparr>"

definition pos_zero_chain :: Blockchain_pos where
  "pos_zero_chain = pos_chain [''Alice'' \<mapsto> 0, ''Bob'' \<mapsto> 0]"

text \<open>
  DPoS chains: the delegates of the DPoS test with one vote already cast, and the same
  chain with a nil \<open>Voters\<close> map.
\<close>

definition dpos_test_chain :: Blockchain_dpos where
  "dpos_test_chain =
     \<lparr>Blocks = [NewBlock_dpos sha256_hex ''t0'' ''Genesis Block'' [] 0 ''Alice''],
      Delegates = [''Alice'', ''Bob'', ''Charlie''],
      Voters = Some [''Voter2'' \<mapsto> ''Bob'']\<rparr>"

definition dpos_nil_chain :: Blockchain_dpos where
  "dpos_nil_chain = dpos_test_chain\<lparr>Voters := None\<rparr>"

text \<open>\<open>Vote(voter, d1)\<close> immediately followed by \<open>Vote(voter, d2)\<close>.\<close>

definition vote_twice :: "Blockchain_dpos \<Rightarrow> string \<Rightarrow> string \<Rightarrow> string \<Rightarrow> error + Blockchain_dpos" where
  "vote_twice bc voter d1 d2 =
     (case Vote bc voter d1 of Inl e \<Rightarrow> Inl e | Inr bc1 \<Rightarrow> Vote bc1 voter d2)"

section \<open>Arithmetic of the runtime\<close>

lemma wrap64_id: "- (2 ^ 63) \<le> x \<Longrightarrow> x < 2 ^ 63 \<Longrightarrow> wrap64 x = x"
  by (simp add: wrap64_def)

lemma wrap64_small [simp]: "wrap64 0 = 0" "wrap64 1 = 1" "wrap64 2 = 2"
  by (simp_all add: wrap64_def)

lemma wrap64_idem: "wrap64 (wrap64 x) = wrap64 x"
  by (simp add: wrap64_def)

lemma wrap64_add_left: "wrap64 (wrap64 a + b) = wrap64 (a + b)"
proof -
  have "(wrap64 a + b + 2 ^ 63) mod 2 ^ 64 = ((a + 2 ^ 63) mod 2 ^ 64 + b) mod 2 ^ 64"
    by (simp add: wrap64_def algebra_simps)
  also have "\<dots> = (a + 2 ^ 63 + b) mod 2 ^ 64"
    by (simp add: mod_add_left_eq)
  finally show ?thesis
    by (simp add: wrap64_def algebra_simps)
qed

text \<open>On a count and a positive divisor Go's quotient is the floor quotient.\<close>

lemma quo_nonneg: "0 \<le> a \<Longrightarrow> 0 < b \<Longrightarrow> quo a b = a div b"
  by (cases "a = 0") (simp_all add: quo_def)

lemma Itoa_0_1: "Itoa 0 = ''0''" "Itoa 1 = ''1''"
  by (simp_all add: Itoa_def digits.simps)

text \<open>The implementation of SHA-256 on the first example of FIPS 180-4.\<close>

lemma sha256_hex_abc:
  "sha256_hex ''abc'' = ''ba7816bf8f01cfea414140de5dae2223b00361a396177a9cb410ff61f20015ad''"
  by code_simp

section \<open>Results for Proof of Work\<close>

text \<open>
  The loop of \<open>MineBlock\<close> has one normal exit, and there the hash starts with four
  zeros; its only panic is the slice of a hash shorter than four characters.
\<close>

lemma MineBlock_result:
  assumes "MineBlock h b = Some r"
  shows "case r of Inl e \<Rightarrow> e = SliceBoundsOutOfRange
         | Inr b' \<Rightarrow> take 4 (Hash b') = ''0000''"
  using assms
proof (induct rule: MineBlock.raw_induct [rotated 1, consumes 1])
  case (1 mine h b r)
  then show ?case
    by (auto simp: Let_def split: if_splits)
qed

lemma MineBlock_mined: "take 4 (Hash b) = ''0000'' \<Longrightarrow> MineBlock h b = Some (Inr b)"
proof -
  assume a: "take 4 (Hash b) = ''0000''"
  have "\<not> length (Hash b) < 4"
  proof
    assume "length (Hash b) < 4"
    then have "length (take 4 (Hash b)) < 4" by simp
    with a show False by simp
  qed
  with a show ?thesis by (simp add: MineBlock.simps)
qed

lemma MineBlock_empty_hash:
  "Hash b = [] \<Longrightarrow> MineBlock h b = Some (Inl SliceBoundsOutOfRange)"
  by (simp add: MineBlock.simps)

text \<open>
  Claim C5. The claim: every evaluation of the loop test of \<open>MineBlock\<close> slices a hash of
  at least 4 characters, the first one included, so \<open>NewBlock\<close> and \<open>NewBlockchain\<close>
  never fault. On the code the first evaluation happens on the block \<open>NewBlock\<close> built,
  whose \<open>Hash\<close> is still the empty string (nothing computed it), so the slice is out of
  range: every call of \<open>NewBlock\<close>, and with it every call of \<open>NewBlockchain\<close>, ends
  in the slice-bounds panic.
\<close>

theorem pow_NewBlock_slice_fault:
  "NewBlock_pow h now data prevHash index = Some (Inl SliceBoundsOutOfRange)
   \<and> NewBlockchain_pow h now = Some (Inl SliceBoundsOutOfRange)"
  by (simp add: NewBlock_pow_def NewBlockchain_pow_def MineBlock_empty_hash)

text \<open>
  Claim C4. The claim: every Record committed to the PoW ledger, the genesis Record of
  \<open>NewBlockchain\<close> and the Records of \<open>AddBlock\<close> included, has a hash that starts with
  \<open>0000\<close>. On the code no Record is ever committed: \<open>AddBlock\<close> on any chain ends in a
  panic (the index panic on an empty \<open>Blocks\<close>, the slice-bounds panic of the first loop
  test otherwise) and returns no chain.
\<close>

theorem pow_AddBlock_commits_nothing:
  "AddBlock_pow h now bc data =
     Some (Inl (if Blocks bc = [] then IndexOutOfRange else SliceBoundsOutOfRange))"
  by (simp add: AddBlock_pow_def lastBlock_def NewBlock_pow_def MineBlock_empty_hash)

section \<open>Results for the shared ledger\<close>

lemma NewBlock_fields [simp]:
  "PrevHash (NewBlock h now data prevHash index) = prevHash"
  "Data (NewBlock h now data prevHash index) = data"
  "Index (NewBlock h now data prevHash index) = index"
  "Hash (NewBlock h now data prevHash index)
     = CalculateHash h (NewBlock h now data prevHash index)"
  by (simp_all add: NewBlock_def CalculateHash_def Let_def)

lemma count_approvals_eq:
  "count_approvals h hp nodes block acc = Inr r \<Longrightarrow> r = acc + approving h hp nodes block"
proof (induction nodes arbitrary: acc)
  case Nil
  then show ?case by (simp add: approving_def)
next
  case (Cons node nodes)
  show ?case
  proof (cases "VerifyBlock h hp node block")
    case (Inl e)
    with Cons.prems show ?thesis by simp
  next
    case (Inr ok)
    with Cons.prems
    have "count_approvals h hp nodes block (if ok then acc + 1 else acc) = Inr r" by simp
    from Cons.IH [OF this] Inr show ?thesis
      by (simp add: approving_def)
  qed
qed

lemma count_approvals_all:
  "(\<And>n. n \<in> set nodes \<Longrightarrow> VerifyBlock h hp n blk = Inr True) \<Longrightarrow>
   count_approvals h hp nodes blk acc = Inr (acc + int (length nodes))"
  by (induction nodes arbitrary: acc) simp_all

text \<open>
  When every node of the loop points to the same blockchain, the commit loop appends the
  block to that blockchain once for each node.
\<close>

lemma commit_all_shared:
  "(\<And>n. n \<in> set nodes \<Longrightarrow> Blockchain n = Some a) \<Longrightarrow> a < length hp \<Longrightarrow>
   commit_all hp nodes blk
     = Inr (hp[a := (hp ! a)\<lparr>Blocks := Blocks (hp ! a) @ replicate (length nodes) blk\<rparr>])"
proof (induction nodes arbitrary: hp)
  case Nil
  then show ?case by simp
next
  case (Cons n nodes)
  have n: "Blockchain n = Some a" by (rule Cons.prems(1)) simp
  let ?hp = "hp[a := AddBlock (hp ! a) blk]"
  from n Cons.prems(2) have c: "CommitBlock hp n blk = Inr ?hp"
    by (simp add: CommitBlock_def)
  have "commit_all ?hp nodes blk
      = Inr (?hp[a := (?hp ! a)\<lparr>Blocks := Blocks (?hp ! a) @ replicate (length nodes) blk\<rparr>])"
    by (rule Cons.IH) (use Cons.prems in simp_all)
  with c Cons.prems(2) show ?case
    by (simp add: AddBlock_def replicate_app_Cons_same)
qed

text \<open>
  A round of \<open>RunPBFT\<close> on a blockchain whose nodes all point back to it (the state
  \<open>NewPBFTNetwork\<close> builds) always reaches its quorum and appends the proposed block
  once per node.
\<close>

lemma RunPBFT_shared:
  fixes hp :: "Node_pbft Blockchain_net heap"
  assumes a: "a < length hp" and nodes: "Nodes (hp ! a) = primary # others"
      and shared: "\<And>n. n \<in> set (Nodes (hp ! a)) \<Longrightarrow> Blockchain n = Some a"
      and blocks: "Blocks (hp ! a) \<noteq> []"
  shows "RunPBFT h now hp (Some a) data
     = Inr (hp[a := (hp ! a)\<lparr>Blocks := Blocks (hp ! a)
              @ replicate (length (Nodes (hp ! a)))
                  (NewBlock h now data (Hash (last (Blocks (hp ! a))))
                     (wrap64 (Index (last (Blocks (hp ! a))) + 1)))\<rparr>])"
proof -
  let ?nb = "NewBlock h now data (Hash (last (Blocks (hp ! a))))
               (wrap64 (Index (last (Blocks (hp ! a))) + 1))"
  have prim: "Blockchain primary = Some a" using shared nodes by simp
  have proposed: "ProposeBlock h now hp primary data = Inr ?nb"
    using a blocks prim by (simp add: ProposeBlock_def deref_def lastBlock_def)
  have ver: "VerifyBlock h hp n ?nb = Inr True" if "n \<in> set (Nodes (hp ! a))" for n
    using shared [OF that] a blocks by (simp add: VerifyBlock_def deref_def lastBlock_def)
  have cnt: "count_approvals h hp (Nodes (hp ! a)) ?nb 0 = Inr (int (length (Nodes (hp ! a))))"
    using count_approvals_all [of "Nodes (hp ! a)" h hp ?nb 0] ver by simp
  have "quo (2 * int (length (Nodes (hp ! a)))) 3 \<le> int (length (Nodes (hp ! a)))"
    by (simp add: quo_nonneg)
  with cnt have bro: "BroadcastBlock_pbft h hp (hp ! a) ?nb = Inr True"
    by (simp add: BroadcastBlock_pbft_def Let_def)
  from commit_all_shared [of "Nodes (hp ! a)" a hp ?nb] shared a
  have "commit_all hp (Nodes (hp ! a)) ?nb
     = Inr (hp[a := (hp ! a)\<lparr>Blocks := Blocks (hp ! a)
                      @ replicate (length (Nodes (hp ! a))) ?nb\<rparr>])"
    by simp
  with a nodes proposed bro show ?thesis
    by (simp add: RunPBFT_def deref_def)
qed

text \<open>
  So a network of \<open>sz\<close> nodes holds, after one round, the genesis block and \<open>sz\<close> copies
  of the block of the round.
\<close>

lemma pbft_round_copies:
  assumes "1 \<le> sz"
  shows "pbft_round h now0 now1 hp sz data =
     (let g = NewBlock h now0 ''Genesis Block'' [] 0;
          b = NewBlock h now1 data (Hash g) 1
      in Inr (g # replicate (nat sz) b))"
proof -
  let ?g = "NewBlock h now0 ''Genesis Block'' [] 0"
  let ?nodes = "map (\<lambda>i. NewNode_pbft (int i) (i = 0) (Some (length hp))) [0..<nat sz]"
  let ?hp0 = "hp @ [\<lparr>Blocks = [?g], Nodes = ?nodes\<rparr>]"
  from assms obtain k where k: "nat sz = Suc k" by (cases "nat sz") auto
  have net: "NewPBFTNetwork h now0 hp sz = Inr (?hp0, Some (length hp))"
    using assms by (simp add: NewPBFTNetwork_def NewBlockchain_net_def deref_def Let_def)
  have nodes: "Nodes (?hp0 ! length hp) = NewNode_pbft 0 True (Some (length hp))
      # map (\<lambda>i. NewNode_pbft (int i) (i = 0) (Some (length hp))) [Suc 0..<nat sz]"
  proof -
    from k have "[0..<nat sz] = 0 # [Suc 0..<nat sz]"
      by (simp add: upt_conv_Cons del: upt_Suc)
    then show ?thesis by simp
  qed
  have run: "RunPBFT h now1 ?hp0 (Some (length hp)) data
     = Inr (?hp0[length hp := (?hp0 ! length hp)\<lparr>Blocks := Blocks (?hp0 ! length hp)
              @ replicate (length (Nodes (?hp0 ! length hp)))
                  (NewBlock h now1 data (Hash (last (Blocks (?hp0 ! length hp))))
                     (wrap64 (Index (last (Blocks (?hp0 ! length hp))) + 1)))\<rparr>])"
    by (rule RunPBFT_shared [OF _ nodes]) (auto simp: NewNode_pbft_def)
  show ?thesis
    unfolding pbft_round_def net
    by (simp add: run blocks_at_def deref_def Let_def)
qed

lemmas pbft_defs = NewPBFTNetwork_def NewBlockchain_net_def deref_def
  RunPBFT_def NewNode_pbft_def ProposeBlock_def lastBlock_def BroadcastBlock_pbft_def
  VerifyBlock_def NewBlock_def CalculateHash_def CommitBlock_def AddBlock_def blocks_at_def
  quo_def Let_def upt_rec nth_append

text \<open>
  Claim C1. The claim: after \<open>NewPBFTNetwork(5)\<close>, \<open>RunPBFT("tx1")\<close> and
  \<open>RunPBFT("tx2")\<close> the ledger holds exactly 3 Records, the genesis Record and one per
  round. On the code each round appends its block once per node, all five nodes sharing
  the one ledger: the ledger holds 11 blocks, the genesis block, five copies of the block
  of \<open>tx1\<close> and five of the block of \<open>tx2\<close>, whatever the digest function, the clock
  and the heap before.
\<close>

theorem pbft_test_scenario_blocks:
  "map_sum id (map Data) (pbft_session h now0 now1 now2 hp 5 ''tx1'' ''tx2'')
     = Inr [''Genesis Block'', ''tx1'', ''tx1'', ''tx1'', ''tx1'', ''tx1'',
            ''tx2'', ''tx2'', ''tx2'', ''tx2'', ''tx2'']
   \<and> map_sum id length (pbft_session h now0 now1 now2 hp 5 ''tx1'' ''tx2'') = Inr 11"
  by (simp add: pbft_session_def pbft_defs)

text \<open>
  raft's \<open>Lead\<close> has the commit loop of \<open>RunPBFT\<close>, and the same outcome: the scenario
  of the specification, a network of five, an election and two calls of \<open>Lead\<close>, leaves
  eleven blocks.
\<close>

lemma raft_scenario_blocks:
  "map_sum id (map Data) (raft_session h now0 now1 now2 hp 5 ''block1'' ''block2'')
     = Inr [''Genesis Block'', ''block1'', ''block1'', ''block1'', ''block1'', ''block1'',
            ''block2'', ''block2'', ''block2'', ''block2'', ''block2'']"
  by (simp add: raft_session_def NewRaftNetwork_def NewBlockchain_raft_def RequestVote_def
      VoteFor_def node_at_def Lead_def NewNode_raft_def BroadcastBlock_raft_def deref_def
      ProposeBlock_def lastBlock_def VerifyBlock_def NewBlock_def CalculateHash_def
      CommitBlock_def AddBlock_def blocks_at_def quo_def Let_def upt_rec nth_append)

lemmas paxos_defs = NewPaxosNetwork_def NewBlockchain_net_def deref_def
  RunPaxos_def NewNode_paxos_def Propose_def BroadcastProposal_def AcceptProposal_def
  blocks_at_def quo_def Let_def upt_rec nth_append

text \<open>
  Had \<open>Propose\<close> written the first node in place, that node alone would know the
  proposal number: one approval of five, still no majority.
\<close>

lemma paxos_in_place_no_quorum:
  "\<not> BroadcastProposal
       ((paxos_five ! 0)\<lparr>Nodes := (Nodes (paxos_five ! 0))
           [0 := fst (Propose (NewNode_paxos 0 (Some 0)) ''d1'' 1)]\<rparr>)
       (snd (Propose (NewNode_paxos 0 (Some 0)) ''d1'' 1))"
  by (simp add: paxos_five_def BroadcastProposal_def AcceptProposal_def NewNode_paxos_def
      Propose_def quo_def Let_def upt_rec)

text \<open>
  Claim C2. The claim: after \<open>NewPaxosNetwork(5)\<close>, \<open>RunPaxos("d1",1)\<close> and
  \<open>RunPaxos("d2",2)\<close> the ledger holds exactly 3 Records: genesis, \<open>d1\<close>, \<open>d2\<close>. On
  the code the proposal is recorded in a copy of the first node only, and no other node
  is ever told of it: no node of the network knows its number, the broadcast counts no
  approval and nothing is committed. The ledger still holds the genesis block alone.
\<close>

theorem paxos_test_scenario_blocks:
  "paxos_session h now0 clock1 clock2 hp 5 ''d1'' 1 ''d2'' 2
     = Inr [NewBlock h now0 ''Genesis Block'' [] 0]"
  by (simp add: paxos_session_def paxos_defs)

section \<open>Results on chain integrity\<close>

lemma chain_linked_snoc:
  "bs \<noteq> [] \<Longrightarrow> chain_linked bs \<Longrightarrow> PrevHash b = Hash (last bs) \<Longrightarrow> chain_linked (bs @ [b])"
  by (induction bs rule: chain_linked.induct) auto

text \<open>
  The appends of pos and dpos, and the commit of paxos, build the new block on the last
  one each time and keep the chain linked.
\<close>

lemma AddBlock_pos_linked:
  "AddBlock_pos h now bc enum1 enum2 draw data = Inr bc' \<Longrightarrow> chain_linked (Blocks bc)
   \<Longrightarrow> chain_linked (Blocks bc')"
  by (auto simp: AddBlock_pos_def lastBlock_def NewBlock_pos_def Let_def
      split: sum.splits if_splits intro!: chain_linked_snoc)

lemma AddBlock_dpos_linked:
  "AddBlock_dpos h now bc draw data = Inr bc' \<Longrightarrow> chain_linked (Blocks bc)
   \<Longrightarrow> chain_linked (Blocks bc')"
  by (auto simp: AddBlock_dpos_def lastBlock_def NewBlock_dpos_def Let_def
      split: sum.splits if_splits intro!: chain_linked_snoc)

lemma CommitProposal_linked:
  "CommitProposal h now hp n proposal = Inr hp' \<Longrightarrow> Blockchain n = Some a
   \<Longrightarrow> chain_linked (Blocks (hp ! a)) \<Longrightarrow> chain_linked (Blocks (hp' ! a))"
  by (auto simp: CommitProposal_def deref_def lastBlock_def AddBlock_def Let_def
      split: sum.splits if_splits intro!: chain_linked_snoc)

text \<open>
  The commit loop of pbft (and of raft) appends one and the same block for every node.
  With two nodes the ledger is \<open>[g, b, b]\<close>: the third block names the hash of \<open>g\<close>, not
  of the block before it, and the chain is linked only if the digests of \<open>g\<close> and \<open>b\<close>
  collide.
\<close>

lemma pbft_round_two_nodes_linked:
  "map_sum id chain_linked (pbft_round h now0 now1 hp 2 data)
     = Inr (h (''1'' @ now1 @ data @ h (''0'' @ now0 @ ''Genesis Block''))
            = h (''0'' @ now0 @ ''Genesis Block''))"
  by (auto simp: pbft_round_copies Let_def NewBlock_def CalculateHash_def Itoa_0_1
      numeral_2_eq_2)

lemma sha256_hex_genesis:
  "sha256_hex ''02024-01-01 00:00:00 +0000 UTCGenesis Block''
     = ''a9cce5cfedf4b9a15df2ae2e8b1e6fcdf9f43d33d0c9bfc5d28baef990a59692''"
  by code_simp

lemma sha256_hex_tx1:
  "sha256_hex ''12024-01-01 00:00:01 +0000 UTCtx1a9cce5cfedf4b9a15df2ae2e8b1e6fcdf9f43d33d0c9bfc5d28baef990a59692''
     = ''469edae6004c61fa7a6fae57b27e8eb6845dd9dd1ee3d0db8ead9483f310f109''"
  by code_simp

text \<open>
  Claim C3. The claim: in every ledger reachable by the public operations of any
  strategy, each block after the first names the hash of the block before it. On the
  code, \<open>NewPBFTNetwork(2)\<close> and one \<open>RunPBFT("tx1")\<close>, run with SHA-256 and two
  timestamps one second apart, leave a ledger of three blocks that is not linked.
\<close>

theorem pbft_round_linkage_broken:
  "map_sum id chain_linked
     (pbft_round sha256_hex ''2024-01-01 00:00:00 +0000 UTC''
        ''2024-01-01 00:00:01 +0000 UTC'' [] 2 ''tx1'') = Inr False"
  by (simp add: pbft_round_two_nodes_linked sha256_hex_genesis sha256_hex_tx1)

section \<open>Results on the quorum\<close>

lemma count_accepts_eq:
  "count_accepts nodes proposal acc = acc + accepting nodes proposal"
  by (induction nodes arbitrary: acc) (simp_all add: accepting_def)

text \<open>
  Claim C6. The broadcast of pbft passes exactly when the number of approving nodes
  satisfies \<open>TwoThirdsOrMore\<close> (\<open>approvals >= floor(2*total/3)\<close>), the broadcasts of
  raft and paxos exactly when it satisfies \<open>MajorityOverHalf\<close>
  (\<open>approvals > floor(total/2)\<close>), \<open>total\<close> being the number of nodes; a tie of exactly
  half of an even total fails. The broadcasts return the verdict and nothing else: they
  take the heap as an argument and return no heap (the one assignment in their bodies,
  \<open>p.Accepted = true\<close>, writes a loop variable). A pbft or raft broadcast can also
  panic, when a node's pointer is nil or its blockchain has no block; then there is no
  verdict.
\<close>

theorem broadcast_quorum_rules:
  fixes hp :: "Node_pbft Blockchain_net heap" and hp_r :: "Blockchain_raft heap"
  shows
  "(BroadcastBlock_pbft h hp bc block = Inr ok \<longrightarrow>
      ok = TwoThirdsOrMore (approving h hp (Nodes bc) block) (int (length (Nodes bc))))
   \<and> (BroadcastBlock_raft h hp_r bc_r block_r = Inr ok_r \<longrightarrow>
      ok_r = MajorityOverHalf (approving h hp_r (Nodes bc_r) block_r)
               (int (length (Nodes bc_r))))
   \<and> BroadcastProposal bc_p proposal
        = MajorityOverHalf (accepting (Nodes bc_p) proposal) (int (length (Nodes bc_p)))
   \<and> \<not> MajorityOverHalf k (2 * k)"
proof (intro conjI impI)
  assume "BroadcastBlock_pbft h hp bc block = Inr ok"
  then obtain r where r: "count_approvals h hp (Nodes bc) block 0 = Inr r"
      and ok: "ok = (r \<ge> quo (2 * int (length (Nodes bc))) 3)"
    by (auto simp: BroadcastBlock_pbft_def Let_def split: sum.splits)
  from count_approvals_eq [OF r] have "r = approving h hp (Nodes bc) block" by simp
  with ok show "ok = TwoThirdsOrMore (approving h hp (Nodes bc) block) (int (length (Nodes bc)))"
    by (simp add: TwoThirdsOrMore_def quo_nonneg)
next
  assume "BroadcastBlock_raft h hp_r bc_r block_r = Inr ok_r"
  then obtain r where r: "count_approvals h hp_r (Nodes bc_r) block_r 0 = Inr r"
      and ok: "ok_r = (r > quo (int (length (Nodes bc_r))) 2)"
    by (auto simp: BroadcastBlock_raft_def Let_def split: sum.splits)
  from count_approvals_eq [OF r] have "r = approving h hp_r (Nodes bc_r) block_r" by simp
  with ok show "ok_r = MajorityOverHalf (approving h hp_r (Nodes bc_r) block_r)
                  (int (length (Nodes bc_r)))"
    by (simp add: MajorityOverHalf_def quo_nonneg)
next
  show "BroadcastProposal bc_p proposal
        = MajorityOverHalf (accepting (Nodes bc_p) proposal) (int (length (Nodes bc_p)))"
    by (simp add: BroadcastProposal_def Let_def count_accepts_eq MajorityOverHalf_def quo_nonneg)
next
  show "\<not> MajorityOverHalf k (2 * k)"
    by (simp add: MajorityOverHalf_def)
qed

lemmas run_defs = deref_def ProposeBlock_def lastBlock_def BroadcastBlock_pbft_def
  BroadcastBlock_raft_def VerifyBlock_def NewBlock_def CalculateHash_def CommitBlock_def
  AddBlock_def quo_def Let_def NewNode_pbft_def NewNode_raft_def

lemma split_pbft_broadcast:
  "BroadcastBlock_pbft sha256_hex split_pbft (split_pbft ! 0) sample_block = Inr False"
  by (simp add: split_pbft_def sample_block_def run_defs)

lemma split_raft_broadcast:
  "BroadcastBlock_raft sha256_hex split_raft (split_raft ! 0) sample_block = Inr False"
  by (simp add: split_raft_def sample_block_def run_defs)

text \<open>
  In both sample states one node of three approves the sample block: short of two
  thirds, and short of a majority.
\<close>

theorem broadcast_quorum_rules_witness:
  "BroadcastBlock_pbft sha256_hex split_pbft (split_pbft ! 0) sample_block = Inr False
   \<and> False = TwoThirdsOrMore
               (approving sha256_hex split_pbft (Nodes (split_pbft ! 0)) sample_block)
               (int (length (Nodes (split_pbft ! 0))))
   \<and> BroadcastBlock_raft sha256_hex split_raft (split_raft ! 0) sample_block = Inr False
   \<and> False = MajorityOverHalf
               (approving sha256_hex split_raft (Nodes (split_raft ! 0)) sample_block)
               (int (length (Nodes (split_raft ! 0))))"
  using split_pbft_broadcast split_raft_broadcast
    broadcast_quorum_rules [of sha256_hex split_pbft "split_pbft ! 0" sample_block False
      split_raft "split_raft ! 0" sample_block False]
  by blast

text \<open>
  Claim C7. For \<open>RunPBFT\<close>, \<open>Lead\<close> and \<open>RunPaxos\<close>: whenever the broadcast step fails
  its quorum, the operation returns with the whole state, and so the ledger, exactly as
  it was before the call; nothing is appended and nothing is retried.
\<close>

theorem quorum_failure_keeps_ledger:
  fixes hp :: "Node_pbft Blockchain_net heap" and hp_r :: "Blockchain_raft heap"
  shows
  "(deref hp bc = Inr b \<and> Nodes b = primary # others
      \<and> ProposeBlock h now hp primary data = Inr newBlock
      \<and> BroadcastBlock_pbft h hp b newBlock = Inr False
      \<longrightarrow> RunPBFT h now hp bc data = Inr hp)
   \<and> (IsLeader n \<and> ProposeBlock h now_r hp_r n data_r = Inr newBlock_r
      \<and> deref hp_r (Blockchain n) = Inr b_r
      \<and> BroadcastBlock_raft h hp_r b_r newBlock_r = Inr False
      \<longrightarrow> Lead h now_r hp_r (Some n) data_r = Inr hp_r)
   \<and> (deref hp_p bc_p = Inr b_p \<and> Nodes b_p = n0 # others_p
      \<and> \<not> BroadcastProposal b_p (snd (Propose n0 data_p proposalID))
      \<longrightarrow> RunPaxos h clock hp_p bc_p data_p proposalID = Inr hp_p)"
  by (auto simp: RunPBFT_def Lead_def RunPaxos_def split: prod.splits)

text \<open>
  The three operations on the sample states: the first node proposes, one node of three
  approves (none of five for paxos), and the state is returned as it was.
\<close>

theorem quorum_failure_keeps_ledger_witness:
  "(deref split_pbft (Some 0) = Inr (split_pbft ! 0)
      \<and> Nodes (split_pbft ! 0) = NewNode_pbft 0 True (Some 0)
           # [NewNode_pbft 1 False (Some 1), NewNode_pbft 2 False (Some 1)]
      \<and> ProposeBlock sha256_hex ''t1'' split_pbft (NewNode_pbft 0 True (Some 0)) ''tx1''
           = Inr sample_block
      \<and> BroadcastBlock_pbft sha256_hex split_pbft (split_pbft ! 0) sample_block = Inr False
      \<and> RunPBFT sha256_hex ''t1'' split_pbft (Some 0) ''tx1'' = Inr split_pbft)
   \<and> (IsLeader (Nodes (split_raft ! 0) ! 0)
      \<and> ProposeBlock sha256_hex ''t1'' split_raft (Nodes (split_raft ! 0) ! 0) ''tx1''
           = Inr sample_block
      \<and> deref split_raft (Blockchain (Nodes (split_raft ! 0) ! 0)) = Inr (split_raft ! 0)
      \<and> BroadcastBlock_raft sha256_hex split_raft (split_raft ! 0) sample_block = Inr False
      \<and> Lead sha256_hex ''t1'' split_raft (Some (Nodes (split_raft ! 0) ! 0)) ''tx1''
           = Inr split_raft)
   \<and> (NewPaxosNetwork sha256_hex ''t0'' [] 5 = Inr (paxos_five, Some 0)
      \<and> deref paxos_five (Some 0) = Inr (paxos_five ! 0)
      \<and> Nodes (paxos_five ! 0) = NewNode_paxos 0 (Some 0)
           # map (\<lambda>i. NewNode_paxos (int i) (Some 0)) [1..<5]
      \<and> \<not> BroadcastProposal (paxos_five ! 0)
             (snd (Propose (NewNode_paxos 0 (Some 0)) ''d1'' 1))
      \<and> RunPaxos sha256_hex sample_clock paxos_five (Some 0) ''d1'' 1 = Inr paxos_five)"
proof -
  have p1: "deref split_pbft (Some 0) = Inr (split_pbft ! 0)"
    by (simp add: split_pbft_def deref_def)
  have p2: "Nodes (split_pbft ! 0) = NewNode_pbft 0 True (Some 0)
           # [NewNode_pbft 1 False (Some 1), NewNode_pbft 2 False (Some 1)]"
    by (simp add: split_pbft_def)
  have p3: "ProposeBlock sha256_hex ''t1'' split_pbft (NewNode_pbft 0 True (Some 0)) ''tx1''
           = Inr sample_block"
    by (simp add: split_pbft_def sample_block_def ProposeBlock_def deref_def lastBlock_def
        NewNode_pbft_def)
  have r1: "IsLeader (Nodes (split_raft ! 0) ! 0)"
    by (simp add: split_raft_def NewNode_raft_def)
  have r2: "ProposeBlock sha256_hex ''t1'' split_raft (Nodes (split_raft ! 0) ! 0) ''tx1''
           = Inr sample_block"
    by (simp add: split_raft_def sample_block_def ProposeBlock_def deref_def lastBlock_def
        NewNode_raft_def)
  have r3: "deref split_raft (Blockchain (Nodes (split_raft ! 0) ! 0)) = Inr (split_raft ! 0)"
    by (simp add: split_raft_def deref_def NewNode_raft_def)
  have x0: "NewPaxosNetwork sha256_hex ''t0'' [] 5 = Inr (paxos_five, Some 0)"
    by (simp add: NewPaxosNetwork_def NewBlockchain_net_def deref_def paxos_five_def Let_def)
  have x1: "deref paxos_five (Some 0) = Inr (paxos_five ! 0)"
    by (simp add: paxos_five_def deref_def)
  have x2: "Nodes (paxos_five ! 0) = NewNode_paxos 0 (Some 0)
           # map (\<lambda>i. NewNode_paxos (int i) (Some 0)) [1..<5]"
    by (simp add: paxos_five_def upt_rec)
  have x3: "\<not> BroadcastProposal (paxos_five ! 0)
               (snd (Propose (NewNode_paxos 0 (Some 0)) ''d1'' 1))"
    by (simp add: paxos_five_def BroadcastProposal_def AcceptProposal_def NewNode_paxos_def
        Propose_def quo_def Let_def upt_rec)
  from quorum_failure_keeps_ledger [of split_pbft "Some 0" "split_pbft ! 0"
      "NewNode_pbft 0 True (Some 0)"
      "[NewNode_pbft 1 False (Some 1), NewNode_pbft 2 False (Some 1)]"
      sha256_hex "''t1''" "''tx1''" sample_block
      "Nodes (split_raft ! 0) ! 0" "''t1''" split_raft "''tx1''" sample_block "split_raft ! 0"
      paxos_five "Some 0" "paxos_five ! 0" "NewNode_paxos 0 (Some 0)"
      "map (\<lambda>i. NewNode_paxos (int i) (Some 0)) [1..<5]" "''d1''" 1 sample_clock]
    p1 p2 p3 split_pbft_broadcast r1 r2 r3 split_raft_broadcast x0 x1 x2 x3
  show ?thesis by blast
qed

section \<open>Results for Delegated Proof of Stake\<close>

text \<open>
  Claim C10. For every voter \<open>v\<close> and delegates \<open>d1\<close>, \<open>d2\<close>: \<open>Vote(v, d1)\<close> followed
  by \<open>Vote(v, d2)\<close> leaves the whole \<open>Blockchain\<close>, the \<open>Voters\<close> table included, as
  \<open>Vote(v, d2)\<close> alone does, and the second vote overwrites the first: afterwards the
  table holds \<open>d2\<close> for \<open>v\<close>, the entry of every other voter is as it was before, and
  \<open>Blocks\<close> and \<open>Delegates\<close> are untouched. On a nil \<open>Voters\<close> map both end in the
  panic of an assignment to a nil map.
\<close>

theorem dpos_vote_last_write_wins:
  "vote_twice bc voter d1 d2 = Vote bc voter d2
   \<and> (Voters bc = Some m \<longrightarrow>
        vote_twice bc voter d1 d2 = Inr (bc\<lparr>Voters := Some (m(voter \<mapsto> d2))\<rparr>)
        \<and> (\<exists>bc2 m2. vote_twice bc voter d1 d2 = Inr bc2 \<and> Voters bc2 = Some m2
              \<and> m2 voter = Some d2 \<and> (w \<noteq> voter \<longrightarrow> m2 w = m w)
              \<and> Blocks bc2 = Blocks bc \<and> Delegates bc2 = Delegates bc))
   \<and> (Voters bc = None \<longrightarrow> vote_twice bc voter d1 d2 = Inl NilMapAssignment)"
  by (auto simp: vote_twice_def Vote_def split: option.splits)

text \<open>
  Voter1 votes for Alice and then for Bob: the table holds Bob for Voter1 and still Bob
  for Voter2. On the chain with the nil map the two votes end in the panic.
\<close>

theorem dpos_vote_last_write_wins_witness:
  "Voters dpos_test_chain = Some [''Voter2'' \<mapsto> ''Bob'']
   \<and> ''Voter2'' \<noteq> ''Voter1''
   \<and> vote_twice dpos_test_chain ''Voter1'' ''Alice'' ''Bob''
       = Inr (dpos_test_chain\<lparr>Voters := Some [''Voter2'' \<mapsto> ''Bob'', ''Voter1'' \<mapsto> ''Bob'']\<rparr>)
   \<and> vote_twice dpos_test_chain ''Voter1'' ''Alice'' ''Bob''
       = Vote dpos_test_chain ''Voter1'' ''Bob''
   \<and> Voters dpos_nil_chain = None
   \<and> vote_twice dpos_nil_chain ''Voter1'' ''Alice'' ''Bob'' = Inl NilMapAssignment"
proof -
  have a: "Voters dpos_test_chain = Some [''Voter2'' \<mapsto> ''Bob'']"
    by (simp add: dpos_test_chain_def)
  have b: "Voters dpos_nil_chain = None"
    by (simp add: dpos_nil_chain_def)
  have ne: "''Voter2'' \<noteq> ''Voter1''"
    by simp
  from a b ne
    dpos_vote_last_write_wins [of dpos_test_chain "''Voter1''" "''Alice''" "''Bob''"
      "[''Voter2'' \<mapsto> ''Bob'']" "''Voter2''"]
    dpos_vote_last_write_wins [of dpos_nil_chain "''Voter1''" "''Alice''" "''Bob''"]
  show ?thesis by blast
qed

section \<open>Results for Proof of Stake\<close>

lemma stake_sum_Cons:
  "stake_sum st (v # vs) = (case st v of None \<Rightarrow> 0 | Some s \<Rightarrow> s) + stake_sum st vs"
  by (simp add: stake_sum_def)

lemma stake_sum_Nil: "stake_sum st [] = 0"
  by (simp add: stake_sum_def)

text \<open>The first loop computes the sum of the stakes modulo \<open>2 ^ 64\<close>, in any order.\<close>

lemma sum_stakes_wrap:
  "wrap64 acc = acc \<Longrightarrow> sum_stakes st vs acc = wrap64 (acc + stake_sum st vs)"
proof (induction vs arbitrary: acc)
  case Nil
  then show ?case by (simp add: stake_sum_Nil)
next
  case (Cons v vs)
  show ?case
  proof (cases "st v")
    case None
    with Cons show ?thesis by (simp add: stake_sum_Cons)
  next
    case (Some s)
    have "sum_stakes st vs (wrap64 (acc + s)) = wrap64 (wrap64 (acc + s) + stake_sum st vs)"
      by (rule Cons.IH) (rule wrap64_idem)
    with Some show ?thesis
      by (simp add: stake_sum_Cons wrap64_add_left add.assoc)
  qed
qed

lemma sum_stakes_0: "sum_stakes st vs 0 = wrap64 (stake_sum st vs)"
  using sum_stakes_wrap [of 0 st vs] by simp

lemma stake_sum_enumerates:
  assumes "enumerates st e1" "enumerates st e2"
  shows "stake_sum st e1 = stake_sum st e2"
proof -
  have "stake_sum st e = sum (\<lambda>v. case st v of None \<Rightarrow> 0 | Some s \<Rightarrow> s) (dom st)"
    if "enumerates st e" for e
    using that by (simp add: stake_sum_def enumerates_def sum_list_distinct_conv_sum_set)
  with assms show ?thesis by simp
qed

lemma stake_sum_nonneg: "stakes_nonneg st vs \<Longrightarrow> 0 \<le> stake_sum st vs"
  by (induction vs) (auto simp: stakes_nonneg_def stake_sum_def split: option.splits)

lemma stakes_nonneg_enumerates:
  "enumerates st e1 \<Longrightarrow> enumerates st e2 \<Longrightarrow> stakes_nonneg st e1 \<Longrightarrow> stakes_nonneg st e2"
  by (simp add: stakes_nonneg_def enumerates_def list_all_iff)

lemma walk_stakes_in_set: "walk_stakes st vs p r = Some v \<Longrightarrow> v \<in> set vs"
  by (induction vs arbitrary: r) (auto simp: Let_def split: option.splits if_splits)

text \<open>
  A walk that returns nothing has seen every running total at or below the pick, the
  last one included, and the last one is the total of the first loop.
\<close>

lemma walk_stakes_None_le:
  "walk_stakes st vs p r = None \<Longrightarrow> r \<le> p \<Longrightarrow> sum_stakes st vs r \<le> p"
proof (induction vs arbitrary: r)
  case Nil
  then show ?case by simp
next
  case (Cons v vs)
  show ?case
  proof (cases "st v")
    case None
    with Cons show ?thesis by simp
  next
    case (Some s)
    with Cons.prems have a: "wrap64 (r + s) \<le> p"
        and b: "walk_stakes st vs p (wrap64 (r + s)) = None"
      by (auto simp: Let_def split: if_splits)
    from Cons.IH [OF b a] Some show ?thesis by simp
  qed
qed

text \<open>
  The walk returns the first key whose running total exceeds the pick: the running total
  after it is above the pick, every running total before it is not.
\<close>

lemma walk_stakes_first:
  "walk_stakes st vs p r = Some v \<Longrightarrow> r \<le> p \<Longrightarrow>
   \<exists>k<length vs. vs ! k = v \<and> p < sum_stakes st (take (Suc k) vs) r
      \<and> (\<forall>j<k. sum_stakes st (take (Suc j) vs) r \<le> p)"
proof (induction vs arbitrary: r)
  case Nil
  then show ?case by simp
next
  case (Cons x xs)
  show ?case
  proof (cases "st x")
    case None
    with Cons.prems have "walk_stakes st xs p r = Some v" by simp
    from Cons.IH [OF this \<open>r \<le> p\<close>] obtain k where k: "k < length xs" "xs ! k = v"
        "p < sum_stakes st (take (Suc k) xs) r"
        "\<forall>j<k. sum_stakes st (take (Suc j) xs) r \<le> p"
      by blast
    have "\<forall>j<Suc k. sum_stakes st (take (Suc j) (x # xs)) r \<le> p"
    proof (intro allI impI)
      fix j assume "j < Suc k"
      then show "sum_stakes st (take (Suc j) (x # xs)) r \<le> p"
        using k(4) None \<open>r \<le> p\<close> by (cases j) auto
    qed
    with k None show ?thesis
      by (intro exI [of _ "Suc k"]) simp
  next
    case (Some s)
    show ?thesis
    proof (cases "wrap64 (r + s) > p")
      case True
      with Some Cons.prems have "v = x" by (simp add: Let_def)
      with True Some show ?thesis
        by (intro exI [of _ 0]) simp
    next
      case False
      with Some Cons.prems have w: "walk_stakes st xs p (wrap64 (r + s)) = Some v"
        by (simp add: Let_def)
      from False have le: "wrap64 (r + s) \<le> p" by simp
      from Cons.IH [OF w le] obtain k where k: "k < length xs" "xs ! k = v"
          "p < sum_stakes st (take (Suc k) xs) (wrap64 (r + s))"
          "\<forall>j<k. sum_stakes st (take (Suc j) xs) (wrap64 (r + s)) \<le> p"
        by blast
      have "\<forall>j<Suc k. sum_stakes st (take (Suc j) (x # xs)) r \<le> p"
      proof (intro allI impI)
        fix j assume "j < Suc k"
        then show "sum_stakes st (take (Suc j) (x # xs)) r \<le> p"
          using k(4) Some le by (cases j) auto
      qed
      with k Some show ?thesis
        by (intro exI [of _ "Suc k"]) simp
    qed
  qed
qed

text \<open>
  Without negative stakes and without overflow, the picks that select a key are as many
  as its stake.
\<close>

lemma walk_stakes_card:
  "distinct vs \<Longrightarrow> stakes_nonneg st vs \<Longrightarrow> 0 \<le> r \<Longrightarrow> r + stake_sum st vs < 2 ^ 63 \<Longrightarrow>
   card {p. r \<le> p \<and> p < r + stake_sum st vs \<and> walk_stakes st vs p r = Some v}
     = (if v \<in> set vs then nat (case st v of None \<Rightarrow> 0 | Some s \<Rightarrow> s) else 0)"
proof (induction vs arbitrary: r)
  case Nil
  then show ?case by simp
next
  case (Cons x xs)
  from Cons.prems have dist: "distinct xs" and xnotin: "x \<notin> set xs" by simp_all
  from Cons.prems have nn: "stakes_nonneg st xs" by (simp add: stakes_nonneg_def)
  show ?case
  proof (cases "st x")
    case None
    then have eq: "{p. r \<le> p \<and> p < r + stake_sum st (x # xs)
            \<and> walk_stakes st (x # xs) p r = Some v}
        = {p. r \<le> p \<and> p < r + stake_sum st xs \<and> walk_stakes st xs p r = Some v}"
      by (simp add: stake_sum_Cons)
    from Cons.prems None have "r + stake_sum st xs < 2 ^ 63" by (simp add: stake_sum_Cons)
    from Cons.IH [OF dist nn \<open>0 \<le> r\<close> this] None xnotin show ?thesis
      unfolding eq by auto
  next
    case (Some s)
    with Cons.prems have s0: "0 \<le> s" by (simp add: stakes_nonneg_def)
    from stake_sum_nonneg [OF nn] have S0: "0 \<le> stake_sum st xs" .
    from Cons.prems Some have bound: "r + s + stake_sum st xs < 2 ^ 63"
      by (simp add: stake_sum_Cons)
    have w: "wrap64 (r + s) = r + s"
      using s0 S0 bound \<open>0 \<le> r\<close> by (intro wrap64_id) auto
    show ?thesis
    proof (cases "v = x")
      case True
      have "{p. r \<le> p \<and> p < r + stake_sum st (x # xs)
              \<and> walk_stakes st (x # xs) p r = Some v}
          = {r ..< r + s}"
        using Some True w S0 xnotin
        by (auto simp: stake_sum_Cons Let_def dest: walk_stakes_in_set)
      with True Some s0 show ?thesis by simp
    next
      case False
      have eq: "{p. r \<le> p \<and> p < r + stake_sum st (x # xs)
              \<and> walk_stakes st (x # xs) p r = Some v}
          = {p. r + s \<le> p \<and> p < (r + s) + stake_sum st xs
              \<and> walk_stakes st xs p (r + s) = Some v}"
        using Some False w s0
        by (auto simp: stake_sum_Cons Let_def)
      have "0 \<le> r + s" using s0 \<open>0 \<le> r\<close> by simp
      from Cons.IH [OF dist nn this bound] False show ?thesis
        unfolding eq by simp
    qed
  qed
qed

lemma select_in_range:
  assumes e1: "enumerates (Stakes bc) enum1" and e2: "enumerates (Stakes bc) enum2"
      and p: "0 \<le> p" "p < sum_stakes (Stakes bc) enum1 0"
  shows "\<exists>v. walk_stakes (Stakes bc) enum2 p 0 = Some v
            \<and> SelectValidator bc enum1 enum2 p = Inr v"
proof -
  have same: "sum_stakes (Stakes bc) enum2 0 = sum_stakes (Stakes bc) enum1 0"
    by (simp add: sum_stakes_0 stake_sum_enumerates [OF e1 e2])
  have "walk_stakes (Stakes bc) enum2 p 0 \<noteq> None"
  proof
    assume "walk_stakes (Stakes bc) enum2 p 0 = None"
    from walk_stakes_None_le [OF this p(1)] same p(2) show False by simp
  qed
  then obtain v where v: "walk_stakes (Stakes bc) enum2 p 0 = Some v" by blast
  from p have "Intn p (sum_stakes (Stakes bc) enum1 0) = Inr p"
    by (simp add: Intn_def)
  with v show ?thesis
    by (simp add: SelectValidator_def Let_def)
qed

lemmas pos_chains = pos_test_chain_def pos_overflow_chain_def pos_zero_chain_def pos_chain_def

text \<open>
  Claim C8, as stated, fails where the \<open>int\<close> sum of the stakes overflows. The stakes
  Alice \<open>2 ^ 63 - 1\<close>, Bob \<open>2 ^ 63 - 1\<close> and Carol 7 are non-negative and sum to
  \<open>2 ^ 64 + 5\<close>; the first loop computes the total 5, which is positive. All five
  draws of \<open>[0, 5)\<close> select Alice, whose stake is not 5, and none selects Carol, whose
  stake is 7.
\<close>

theorem pos_overflow_counterexample:
  "enumerates (Stakes pos_overflow_chain) [''Alice'', ''Bob'', ''Carol'']
   \<and> stakes_nonneg (Stakes pos_overflow_chain) [''Alice'', ''Bob'', ''Carol'']
   \<and> stake_sum (Stakes pos_overflow_chain) [''Alice'', ''Bob'', ''Carol'']
        = 18446744073709551621
   \<and> sum_stakes (Stakes pos_overflow_chain) [''Alice'', ''Bob'', ''Carol''] 0 = 5
   \<and> Stakes pos_overflow_chain ''Alice'' = Some 9223372036854775807
   \<and> draws_selecting pos_overflow_chain [''Alice'', ''Bob'', ''Carol'']
        [''Alice'', ''Bob'', ''Carol''] ''Alice'' = 5
   \<and> draws_selecting pos_overflow_chain [''Alice'', ''Bob'', ''Carol'']
        [''Alice'', ''Bob'', ''Carol''] ''Alice'' \<noteq> nat 9223372036854775807
   \<and> Stakes pos_overflow_chain ''Carol'' = Some 7
   \<and> draws_selecting pos_overflow_chain [''Alice'', ''Bob'', ''Carol'']
        [''Alice'', ''Bob'', ''Carol''] ''Carol'' = 0"
  apply (simp add: pos_chains enumerates_def stakes_nonneg_def stake_sum_def
      draws_selecting_def SelectValidator_def Intn_def Let_def wrap64_def upto.simps)
  apply auto
  done

text \<open>
  Claim C8, amended. Let the stakes be non-negative, as the specification requires of a
  stake table, let \<open>enum1\<close> and \<open>enum2\<close> be the orders in which the two loops of
  \<open>SelectValidator\<close> meet the keys of the stakes map, and let the total \<open>T\<close> that the
  first loop computes be positive. Then for every draw \<open>p\<close> of \<open>[0, T)\<close> the walk returns
  a participant, never the fallback empty string, and the one returned is the first of
  \<open>enum2\<close> whose running sum exceeds \<open>p\<close> (this much holds of any stakes). If moreover
  the sum of the stakes is below \<open>2 ^ 63\<close>, so that it does not overflow, then \<open>T\<close> is
  the sum of the stakes and, for each participant \<open>v\<close>, exactly \<open>stake(v)\<close> of the \<open>T\<close>
  draws of \<open>[0, T)\<close> select \<open>v\<close>.
\<close>

theorem pos_selection_proportional:
  assumes e1: "enumerates (Stakes bc) enum1" and e2: "enumerates (Stakes bc) enum2"
      and T: "0 < sum_stakes (Stakes bc) enum1 0"
  shows "(0 \<le> p \<and> p < sum_stakes (Stakes bc) enum1 0 \<longrightarrow>
            (\<exists>w k. walk_stakes (Stakes bc) enum2 p 0 = Some w
               \<and> SelectValidator bc enum1 enum2 p = Inr w
               \<and> k < length enum2 \<and> enum2 ! k = w
               \<and> p < sum_stakes (Stakes bc) (take (Suc k) enum2) 0
               \<and> (\<forall>j<k. sum_stakes (Stakes bc) (take (Suc j) enum2) 0 \<le> p)))
       \<and> (stakes_nonneg (Stakes bc) enum1 \<and> stake_sum (Stakes bc) enum1 < 2 ^ 63
             \<and> Stakes bc v = Some s \<longrightarrow>
            sum_stakes (Stakes bc) enum1 0 = stake_sum (Stakes bc) enum1
            \<and> draws_selecting bc enum1 enum2 v = nat s)"
proof (intro conjI impI)
  assume p: "0 \<le> p \<and> p < sum_stakes (Stakes bc) enum1 0"
  with select_in_range [OF e1 e2] obtain w where
      w: "walk_stakes (Stakes bc) enum2 p 0 = Some w"
      "SelectValidator bc enum1 enum2 p = Inr w"
    by blast
  from walk_stakes_first [OF w(1)] p obtain k where "k < length enum2" "enum2 ! k = w"
      "p < sum_stakes (Stakes bc) (take (Suc k) enum2) 0"
      "\<forall>j<k. sum_stakes (Stakes bc) (take (Suc j) enum2) 0 \<le> p"
    by blast
  with w show "\<exists>w k. walk_stakes (Stakes bc) enum2 p 0 = Some w
               \<and> SelectValidator bc enum1 enum2 p = Inr w
               \<and> k < length enum2 \<and> enum2 ! k = w
               \<and> p < sum_stakes (Stakes bc) (take (Suc k) enum2) 0
               \<and> (\<forall>j<k. sum_stakes (Stakes bc) (take (Suc j) enum2) 0 \<le> p)"
    by blast
next
  assume a: "stakes_nonneg (Stakes bc) enum1 \<and> stake_sum (Stakes bc) enum1 < 2 ^ 63
             \<and> Stakes bc v = Some s"
  let ?st = "Stakes bc"
  let ?T = "sum_stakes ?st enum1 0"
  from a have nn1: "stakes_nonneg ?st enum1" and small: "stake_sum ?st enum1 < 2 ^ 63"
      and v: "?st v = Some s" by simp_all
  from stake_sum_nonneg [OF nn1] small
  show Tsum: "?T = stake_sum ?st enum1"
    by (simp add: sum_stakes_0 wrap64_id)
  have ss: "stake_sum ?st enum2 = stake_sum ?st enum1"
    by (rule stake_sum_enumerates [OF e2 e1])
  have nn2: "stakes_nonneg ?st enum2"
    by (rule stakes_nonneg_enumerates [OF e1 e2 nn1])
  from e2 v have vin: "v \<in> set enum2" and dist: "distinct enum2"
    by (auto simp: enumerates_def)
  have "draws_selecting bc enum1 enum2 v
      = card ({p. SelectValidator bc enum1 enum2 p = Inr v} \<inter> set [0 .. ?T - 1])"
    by (simp add: draws_selecting_def distinct_length_filter)
  also have "{p. SelectValidator bc enum1 enum2 p = Inr v} \<inter> set [0 .. ?T - 1]
      = {p. 0 \<le> p \<and> p < 0 + stake_sum ?st enum2 \<and> walk_stakes ?st enum2 p 0 = Some v}"
  proof (rule set_eqI)
    fix p
    show "p \<in> {p. SelectValidator bc enum1 enum2 p = Inr v} \<inter> set [0 .. ?T - 1]
      \<longleftrightarrow> p \<in> {p. 0 \<le> p \<and> p < 0 + stake_sum ?st enum2
                  \<and> walk_stakes ?st enum2 p 0 = Some v}"
    proof (cases "0 \<le> p \<and> p < ?T")
      case True
      with select_in_range [OF e1 e2, of p] obtain w where
          "walk_stakes ?st enum2 p 0 = Some w" "SelectValidator bc enum1 enum2 p = Inr w"
        by blast
      with True show ?thesis by (auto simp: Tsum ss)
    next
      case False
      then show ?thesis by (auto simp: Tsum ss)
    qed
  qed
  also have "card \<dots> = nat s"
    using walk_stakes_card [OF dist nn2, of 0 v] small ss vin v by simp
  finally show "draws_selecting bc enum1 enum2 v = nat s" .
qed

text \<open>
  The stakes of tests/test\_pos.go, Alice 70 and Bob 30, the first loop meeting Alice
  first and the second Bob first: the draw 29 selects Bob, and 70 of the 100 draws select
  Alice.
\<close>

theorem pos_selection_proportional_witness:
  "enumerates (Stakes pos_test_chain) [''Alice'', ''Bob'']
   \<and> enumerates (Stakes pos_test_chain) [''Bob'', ''Alice'']
   \<and> 0 < sum_stakes (Stakes pos_test_chain) [''Alice'', ''Bob''] 0
   \<and> (0 \<le> (29::int) \<and> 29 < sum_stakes (Stakes pos_test_chain) [''Alice'', ''Bob''] 0)
   \<and> stakes_nonneg (Stakes pos_test_chain) [''Alice'', ''Bob'']
   \<and> stake_sum (Stakes pos_test_chain) [''Alice'', ''Bob''] < 2 ^ 63
   \<and> Stakes pos_test_chain ''Alice'' = Some 70
   \<and> SelectValidator pos_test_chain [''Alice'', ''Bob''] [''Bob'', ''Alice''] 29 = Inr ''Bob''
   \<and> sum_stakes (Stakes pos_test_chain) [''Alice'', ''Bob''] 0 = 100
   \<and> draws_selecting pos_test_chain [''Alice'', ''Bob''] [''Bob'', ''Alice''] ''Alice'' = 70"
proof -
  have e1: "enumerates (Stakes pos_test_chain) [''Alice'', ''Bob'']"
    by (auto simp: pos_chains enumerates_def)
  have e2: "enumerates (Stakes pos_test_chain) [''Bob'', ''Alice'']"
    by (auto simp: pos_chains enumerates_def)
  have T: "sum_stakes (Stakes pos_test_chain) [''Alice'', ''Bob''] 0 = 100"
    by (simp add: pos_chains wrap64_def)
  have nn: "stakes_nonneg (Stakes pos_test_chain) [''Alice'', ''Bob'']"
    by (simp add: pos_chains stakes_nonneg_def)
  have small: "stake_sum (Stakes pos_test_chain) [''Alice'', ''Bob''] < 2 ^ 63"
    by (simp add: pos_chains stake_sum_def)
  have st: "Stakes pos_test_chain ''Alice'' = Some 70"
    by (simp add: pos_chains)
  have sel: "SelectValidator pos_test_chain [''Alice'', ''Bob''] [''Bob'', ''Alice''] 29
      = Inr ''Bob''"
    by (simp add: pos_chains SelectValidator_def Intn_def Let_def wrap64_def)
  from pos_selection_proportional [OF e1 e2, of 29 "''Alice''" 70] T nn small st
  have "draws_selecting pos_test_chain [''Alice'', ''Bob''] [''Bob'', ''Alice''] ''Alice''
      = 70"
    by simp
  with e1 e2 T nn small st sel show ?thesis by simp
qed

text \<open>
  Claim C9. When the stakes of the table sum to zero, proposer selection fails: the
  total is 0 and \<open>rand.Intn(0)\<close> panics (the code has no error type of its own; this panic
  is the \<open>NoStakeError\<close> of the specification). \<open>AddBlock\<close> on such a chain ends in the
  same panic, raised before the append, and returns no chain; on a chain without any
  block it ends in the index panic even earlier.
\<close>

theorem pos_zero_total_stake:
  "stake_sum (Stakes bc) enum1 = 0 \<Longrightarrow>
   SelectValidator bc enum1 enum2 draw = Inl IntnNonPositive
   \<and> AddBlock_pos h now bc enum1 enum2 draw data
       = Inl (if Blocks bc = [] then IndexOutOfRange else IntnNonPositive)"
  by (simp add: SelectValidator_def AddBlock_pos_def sum_stakes_0 Intn_def lastBlock_def)

theorem pos_zero_total_stake_witness:
  "stake_sum (Stakes pos_zero_chain) [''Alice'', ''Bob''] = 0
   \<and> SelectValidator pos_zero_chain [''Alice'', ''Bob''] [''Bob'', ''Alice''] 7
       = Inl IntnNonPositive
   \<and> AddBlock_pos sha256_hex ''t1'' pos_zero_chain [''Alice'', ''Bob''] [''Bob'', ''Alice''] 7
        ''tx1'' = Inl IntnNonPositive"
proof -
  have z: "stake_sum (Stakes pos_zero_chain) [''Alice'', ''Bob''] = 0"
    by (simp add: pos_chains stake_sum_def)
  have b: "Blocks pos_zero_chain \<noteq> []"
    by (simp add: pos_chains)
  from pos_zero_total_stake [OF z, of "[''Bob'', ''Alice'']" 7 sha256_hex "''t1''" "''tx1''"] z b
  show ?thesis by simp
qed

end
